theory Spec2Isabelle
  imports Main "HOL-Library.Log_Nat"
begin

text \<open>
  The synchronisation core of the radar client (\<open>MainScreen.js\<close>, and the zone
  naming step of \<open>RadarVisualization.js\<close>): the point-in-polygon test, the
  occupancy engine, the dispatch of inbound frames, the connection manager with its
  timers, and zone creation and deletion.  Every handler is a function from the
  component's state to its next state; the clock, the closure a handler was created
  with and the payload are its arguments.
\<close>

section \<open>JavaScript numbers\<close>

text \<open>
  Coordinates arrive as JSON numbers, that is IEEE-754 binary64 values, and every
  arithmetic operator of the source rounds its exact result to the nearest such value,
  ties to even.  A finite double is written here as the rational it denotes.  The
  exponent range is not bounded: overflow to Infinity, NaN and subnormal numbers are
  outside the model.
\<close>

type_synonym number = rat

definition ilog2 :: "rat \<Rightarrow> int" where
  \<comment> \<open>the binary exponent of a positive rational: \<open>2 powi e \<le> q < 2 powi (e + 1)\<close>\<close>
  "ilog2 q = (case quotient_of q of (p, d) \<Rightarrow>
     (let e0 = bitlen p - bitlen d
      in if 2 powi e0 \<le> q then e0 else e0 - 1))"

definition roundTiesToEven :: "rat \<Rightarrow> int" where
  "roundTiesToEven q = (let f = \<lfloor>q\<rfloor>; d = q - of_int f in
     if d < 1 / 2 then f else if 1 / 2 < d then f + 1 else if even f then f else f + 1)"

definition fl :: "rat \<Rightarrow> number" where
  \<comment> \<open>rounding to 53 significant bits\<close>
  "fl q = (if q = 0 then 0 else
     (let u = 2 powi (ilog2 \<bar>q\<bar> - 52) in of_int (roundTiesToEven (q / u)) * u))"

definition js_add :: "number \<Rightarrow> number \<Rightarrow> number" where
  "js_add a b = fl (a + b)"

definition js_sub :: "number \<Rightarrow> number \<Rightarrow> number" where
  "js_sub a b = fl (a - b)"

definition js_mul :: "number \<Rightarrow> number \<Rightarrow> number" where
  "js_mul a b = fl (a * b)"

definition js_div :: "number \<Rightarrow> number \<Rightarrow> number" where
  \<comment> \<open>the source divides only behind a guard that makes the divisor non-zero\<close>
  "js_div a b = fl (a / b)"

section \<open>Data model\<close>

record point =
  point_x :: number
  point_y :: number

record target =
  target_id :: string
  target_x :: number
  target_y :: number

record zone =
  zone_id :: string
  zone_name :: string
  zone_points :: "point list"

datatype error = TypeError

section \<open>Geometry: \<open>isTargetInZone\<close>\<close>

text \<open>
  \<^verbatim>\<open>
  let inside = false;
  for (let i = 0, j = zone.points.length - 1; i < zone.points.length; j = i++) {
    const xi = zone.points[i].x, yi = zone.points[i].y;
    const xj = zone.points[j].x, yj = zone.points[j].y;
    if (((yi > target.y) !== (yj > target.y)) &&
        (target.x < (xj - xi) * (target.y - yi) / (yj - yi) + xi)) {
      inside = !inside;
    }
  }
  return inside;
  \<close>
  Reading an index outside the array yields \<open>undefined\<close>, and the property access
  on it raises; \<open>points_at\<close> makes that a value.  The index \<open>j\<close> starts at
  \<open>length - 1\<close>, which is \<open>-1\<close> for the empty array, so it is an integer.
\<close>

definition points_at :: "point list \<Rightarrow> int \<Rightarrow> error + point" where
  "points_at ps k = (if 0 \<le> k \<and> k < int (length ps) then Inr (ps ! nat k) else Inl TypeError)"

definition x_intersection :: "target \<Rightarrow> point \<Rightarrow> point \<Rightarrow> number" where
  \<comment> \<open>\<open>(xj - xi) * (target.y - yi) / (yj - yi) + xi\<close> for vertex \<open>i\<close> and vertex \<open>j\<close>\<close>
  "x_intersection t vi vj =
     js_add (js_div (js_mul (js_sub (point_x vj) (point_x vi)) (js_sub (target_y t) (point_y vi)))
                    (js_sub (point_y vj) (point_y vi)))
            (point_x vi)"

function isTargetInZone_loop :: "target \<Rightarrow> point list \<Rightarrow> nat \<Rightarrow> int \<Rightarrow> bool \<Rightarrow> error + bool" where
  "isTargetInZone_loop t ps i j inside =
     (if i < length ps then
        (case points_at ps (int i) of
           Inl e \<Rightarrow> Inl e
         | Inr vi \<Rightarrow>
            (case points_at ps j of
               Inl e \<Rightarrow> Inl e
             | Inr vj \<Rightarrow>
                 isTargetInZone_loop t ps (Suc i) (int i)
                   (if ((point_y vi > target_y t) \<noteq> (point_y vj > target_y t)) \<and>
                       target_x t < x_intersection t vi vj
                    then \<not> inside else inside)))
      else Inr inside)"
  by pat_completeness auto
termination
  by (relation "measure (\<lambda>(t, ps, i, j, inside). length ps - i)") auto

declare isTargetInZone_loop.simps [simp del]

definition isTargetInZone :: "target \<Rightarrow> zone \<Rightarrow> error + bool" where
  "isTargetInZone t z =
     isTargetInZone_loop t (zone_points z) 0 (int (length (zone_points z)) - 1) False"

subsection \<open>The loop as a parity over the edges\<close>

definition edges :: "point list \<Rightarrow> (point \<times> point) list" where
  \<comment> \<open>every vertex paired with its predecessor; the first vertex with the last\<close>
  "edges ps = (if ps = [] then [] else zip ps (last ps # butlast ps))"

definition crosses :: "target \<Rightarrow> point \<times> point \<Rightarrow> bool" where
  \<comment> \<open>the condition of the loop body on one edge, with the x-intersection as the loop
      computes it, every operation rounded\<close>
  "crosses t e = (case e of (a, b) \<Rightarrow>
     ((target_y t < point_y a) \<noteq> (target_y t < point_y b)) \<and> target_x t < x_intersection t a b)"

definition pointInPolygon :: "target \<Rightarrow> point list \<Rightarrow> bool" where
  "pointInPolygon t ps = odd (length (filter (crosses t) (edges ps)))"

subsection \<open>The ray-crossing rule, as the specification words it\<close>




definition unit_square :: zone where
  "unit_square = \<lparr>zone_id = ''zone_1'', zone_name = ''square'',
     zone_points = [\<lparr>point_x = 0, point_y = 0\<rparr>, \<lparr>point_x = 1, point_y = 0\<rparr>,
                    \<lparr>point_x = 1, point_y = 1\<rparr>, \<lparr>point_x = 0, point_y = 1\<rparr>]\<rparr>"




section \<open>Session state\<close>

datatype log_type = occupied | unoccupied

text \<open>
  A log entry as the occupancy engine builds it.  The source stores the creation time as
  its ISO-8601 rendering (\<open>new Date().toISOString()\<close>); the model keeps the epoch
  milliseconds that string is rendered from.
\<close>

record log_entry =
  timestamp :: int
  entry_type :: log_type
  targetCount :: nat
  entry_targets :: "target list"

record fall_log =
  fall_timestamp :: string
  event_type :: string

datatype ready_state = CONNECTING | OPEN | CLOSING | CLOSED

text \<open>A WebSocket object is known by its identity; its \<open>readyState\<close> lives in a store.\<close>

type_synonym websocket = nat

datatype connection_status =
    Not_connected | Connecting | Connected | Reconnecting_in int
  | Max_attempts_reached | Disconnected

datatype outbound =
    request_zones
  | request_logs "string option"
  | new_zone zone
  | delete_zone string
  | fall_logs int int
  | ping

text \<open>
  An inbound frame after \<open>JSON.parse\<close>, by its \<open>type\<close> field.  A payload field
  that is absent (or otherwise falsy) is \<open>None\<close>; an id-keyed object is the list of
  its entries in enumeration order.  \<open>Malformed\<close> is a frame on which parsing raises.
\<close>

datatype inbound =
    zones_response "(string \<times> zone) list option"
  | zone_deleted bool "string option"
  | zones_data "(string \<times> zone) list option"
  | zone_logs_response "(string \<times> log_entry list) list option"
  | fall_logs_response "fall_log list option"
  | target_update "target list option"
  | fall_event
  | zone_event
  | pong
  | error_frame
  | unhandled string

datatype frame = Malformed | Message inbound

text \<open>
  The component's callbacks are closures: a state variable read inside one has the value
  of the render that created the callback, while refs and functional state updates see
  the live value.  \<open>closure\<close> holds the state variables the modelled callbacks
  read directly; \<open>c_zones\<close> is the \<open>zones\<close> prop of \<open>RadarVisualization\<close>.
\<close>

record closure =
  c_socket :: "websocket option"
  c_connectionAttempts :: nat
  c_selectedZone :: "zone option"
  c_zones :: "zone list"

datatype callback = CallConnectWebSocket closure | ResponseTimeoutCheck closure

record timer =
  timer_id :: nat
  timer_set_at :: int
  timer_delay :: number
  timer_callback :: callback

text \<open>
  The state variables and refs of \<open>MainScreen\<close> that the synchronisation core uses,
  followed by the runtime the callbacks act on: the table of armed timeouts, the
  \<open>readyState\<close> of every socket, and the frames handed to \<open>socket.send\<close>.
  Presentation state (status colour, menus, debug info) is left out.
\<close>

record screen =
  connectionStatus :: connection_status
  socket :: "websocket option"
  targets :: "target list"
  zones :: "zone list"
  activeZones :: "string set"
  deletingZones :: "string set"
  zoneLogs :: "string \<rightharpoonup> log_entry list"
  receivedZoneLogs :: bool
  selectedZone :: "zone option"
  showLogs :: bool
  showFallAlert :: bool
  fallLogs :: "fall_log list"
  connectionAttempts :: nat
  newFallDetected :: bool
  pendingZones :: "string set"
  prevActiveZonesRef :: "string set"
  retryTimeoutRef :: "nat option"
  isConnectingRef :: bool
  lastConnectionAttemptRef :: int
  messageResponseTimeoutRef :: "nat option"
  lastMessageSentTimeRef :: int
  lastMessageReceivedTimeRef :: int
  lastMessageTimeRef :: int
  timeouts :: "timer list"
  nextTimerId :: nat
  readyState :: "websocket \<Rightarrow> ready_state"
  nextSocketId :: nat
  sent :: "(websocket \<times> outbound) list"

definition initial_screen :: "int \<Rightarrow> screen" where
  \<comment> \<open>the initial values of \<open>useState\<close> and \<open>useRef\<close>; the argument is \<open>Date.now()\<close> at mount\<close>
  "initial_screen mountTime =
     \<lparr>connectionStatus = Not_connected, socket = None, targets = [], zones = [],
      activeZones = {}, deletingZones = {}, zoneLogs = Map.empty, receivedZoneLogs = False,
      selectedZone = None, showLogs = False, showFallAlert = False, fallLogs = [],
      connectionAttempts = 0, newFallDetected = False, pendingZones = {},
      prevActiveZonesRef = {}, retryTimeoutRef = None, isConnectingRef = False,
      lastConnectionAttemptRef = 0, messageResponseTimeoutRef = None,
      lastMessageSentTimeRef = 0, lastMessageReceivedTimeRef = 0,
      lastMessageTimeRef = mountTime, timeouts = [], nextTimerId = 1,
      readyState = (\<lambda>ws. CLOSED), nextSocketId = 1, sent = []\<rparr>"

definition current_closure :: "screen \<Rightarrow> closure" where
  \<comment> \<open>what a callback of the current render sees\<close>
  "current_closure s =
     \<lparr>c_socket = socket s, c_connectionAttempts = connectionAttempts s,
      c_selectedZone = selectedZone s, c_zones = zones s\<rparr>"

definition maxReconnectAttempts :: nat where
  "maxReconnectAttempts = 5"

definition maxReconnectDelay :: number where
  "maxReconnectDelay = 30000"

subsection \<open>Timers\<close>

text \<open>Timer handles are positive numbers, so a stored handle is always truthy.\<close>

definition setTimeout :: "callback \<Rightarrow> number \<Rightarrow> int \<Rightarrow> screen \<Rightarrow> nat \<times> screen" where
  "setTimeout cb delay now s =
     (nextTimerId s,
      s\<lparr>timeouts := timeouts s @
            [\<lparr>timer_id = nextTimerId s, timer_set_at = now, timer_delay = delay,
              timer_callback = cb\<rparr>],
        nextTimerId := Suc (nextTimerId s)\<rparr>)"

definition clearTimeout :: "nat \<Rightarrow> screen \<Rightarrow> screen" where
  "clearTimeout h s = s\<lparr>timeouts := filter (\<lambda>t. timer_id t \<noteq> h) (timeouts s)\<rparr>"

section \<open>Occupancy engine\<close>

text \<open>
  \<^verbatim>\<open>
  useEffect(() => {
    if (zones.length === 0 || targets.length === 0) return;
    const currentActiveZones = new Set();
    const newLogs = {};
    let hasChanges = false;
    zones.forEach(zone => {
      const targetsInZone = targets.filter(target => isTargetInZone(target, zone));
      const isActive = targetsInZone.length > 0;
      const wasActive = prevActiveZonesRef.current.has(zone.id);
      if (isActive) { currentActiveZones.add(zone.id); }
      if (isActive !== wasActive) {
        hasChanges = true;
        const logEntry = { timestamp: new Date().toISOString(),
          type: isActive ? 'occupied' : 'unoccupied',
          targetCount: targetsInZone.length,
          targets: targetsInZone.map(t => ({ id: t.id, x: t.x, y: t.y })) };
        if (!newLogs[zone.id]) { newLogs[zone.id] = []; }
        newLogs[zone.id].push(logEntry);
      }
    });
    if (hasChanges) {
      const batchedUpdates = () => {
        setZoneLogs(prevLogs => {
          const updatedLogs = { ...prevLogs };
          Object.keys(newLogs).forEach(zoneId => {
            if (!updatedLogs[zoneId]) { updatedLogs[zoneId] = []; }
            updatedLogs[zoneId].push(...newLogs[zoneId]);
          });
          return updatedLogs;
        });
        setActiveZones(currentActiveZones);
      };
      requestAnimationFrame(batchedUpdates);
    }
    prevActiveZonesRef.current = currentActiveZones;
  }, [zones, targets, isTargetInZone]);
  \<close>
\<close>

type_synonym new_logs = "(string \<times> log_entry list) list"

fun push_log :: "string \<Rightarrow> log_entry \<Rightarrow> new_logs \<Rightarrow> new_logs" where
  "push_log k e [] = [(k, [e])]"
| "push_log k e ((k', es) # r) =
     (if k = k' then (k', es @ [e]) # r else (k', es) # push_log k e r)"

definition targetsInZone :: "target list \<Rightarrow> zone \<Rightarrow> target list" where
  "targetsInZone ts z = filter (\<lambda>t. isTargetInZone t z = Inr True) ts"

definition logEntry :: "int \<Rightarrow> bool \<Rightarrow> target list \<Rightarrow> log_entry" where
  "logEntry now isActive inZone =
     \<lparr>timestamp = now,
      entry_type = (if isActive then occupied else unoccupied),
      targetCount = length inZone,
      entry_targets =
        map (\<lambda>t. \<lparr>target_id = target_id t, target_x = target_x t, target_y = target_y t\<rparr>) inZone\<rparr>"

definition zone_step ::
  "int \<Rightarrow> target list \<Rightarrow> string set \<Rightarrow> zone \<Rightarrow>
   string set \<times> new_logs \<times> bool \<Rightarrow> string set \<times> new_logs \<times> bool" where
  \<comment> \<open>the body of \<open>zones.forEach\<close> on (currentActiveZones, newLogs, hasChanges)\<close>
  "zone_step now ts prev z acc = (case acc of (currentActiveZones, newLogs, hasChanges) \<Rightarrow>
     (let inZone = targetsInZone ts z;
          isActive = (0 < length inZone);
          wasActive = (zone_id z \<in> prev);
          cur = (if isActive then insert (zone_id z) currentActiveZones else currentActiveZones)
      in if isActive \<noteq> wasActive
         then (cur, push_log (zone_id z) (logEntry now isActive inZone) newLogs, True)
         else (cur, newLogs, hasChanges)))"

definition batchedUpdates :: "new_logs \<Rightarrow> string set \<Rightarrow> screen \<Rightarrow> screen" where
  "batchedUpdates newLogs currentActiveZones s =
     s\<lparr>zoneLogs :=
          fold (\<lambda>(zoneId, es) updatedLogs.
                  updatedLogs(zoneId \<mapsto>
                    (case updatedLogs zoneId of None \<Rightarrow> [] | Some old \<Rightarrow> old) @ es))
               newLogs (zoneLogs s),
       activeZones := currentActiveZones\<rparr>"

definition occupancy_effect :: "int \<Rightarrow> screen \<Rightarrow> screen \<times> (new_logs \<times> string set) option" where
  \<comment> \<open>the effect itself; the second component is the update it hands to
      \<open>requestAnimationFrame\<close>, if any\<close>
  "occupancy_effect now s =
     (if length (zones s) = 0 \<or> length (targets s) = 0 then (s, None)
      else (case fold (zone_step now (targets s) (prevActiveZonesRef s)) (zones s) ({}, [], False) of
              (currentActiveZones, newLogs, hasChanges) \<Rightarrow>
                (s\<lparr>prevActiveZonesRef := currentActiveZones\<rparr>,
                 if hasChanges then Some (newLogs, currentActiveZones) else None)))"

definition occupancy_run :: "int \<Rightarrow> screen \<Rightarrow> screen" where
  \<comment> \<open>the effect followed by the animation frame that applies its batched update\<close>
  "occupancy_run now s =
     (case occupancy_effect now s of
        (s', None) \<Rightarrow> s'
      | (s', Some (newLogs, currentActiveZones)) \<Rightarrow> batchedUpdates newLogs currentActiveZones s')"

subsection \<open>Vocabulary for the engine's properties\<close>

definition zone_occupied :: "target list \<Rightarrow> zone \<Rightarrow> bool" where
  \<comment> \<open>the occupancy boolean: at least one of the targets lies inside the zone\<close>
  "zone_occupied ts z = (targetsInZone ts z \<noteq> [])"


definition logs_of :: "screen \<Rightarrow> string \<Rightarrow> log_entry list" where
  "logs_of s k = (case zoneLogs s k of None \<Rightarrow> [] | Some es \<Rightarrow> es)"




section \<open>Outbound messages\<close>

text \<open>
  \<^verbatim>\<open>
  const sendWebSocketMessage = useCallback((message) => {
    if (socket && socket.readyState === WebSocketState.OPEN) {
      try {
        const messageStr = JSON.stringify(message);
        socket.send(messageStr);
        lastMessageSentTimeRef.current = Date.now();
        if (messageResponseTimeoutRef.current) {
          clearTimeout(messageResponseTimeoutRef.current);
        }
        messageResponseTimeoutRef.current = setTimeout(() => {
          if (Date.now() - lastMessageReceivedTimeRef.current > 15000) {
            forceReconnect();
          }
        }, 15000);
        return true;
      } catch (e) { return false; }
    } else { return false; }
  }, [socket, forceReconnect]);
  \<close>
  Serialising one of the \<open>outbound\<close> messages and sending on an open socket do
  not raise, so the \<open>catch\<close> branch has no counterpart.
\<close>

definition socket_open :: "closure \<Rightarrow> screen \<Rightarrow> bool" where
  \<comment> \<open>\<open>socket && socket.readyState === WebSocketState.OPEN\<close>\<close>
  "socket_open c s = (case c_socket c of None \<Rightarrow> False | Some ws \<Rightarrow> readyState s ws = OPEN)"

definition socket_send :: "closure \<Rightarrow> outbound \<Rightarrow> screen \<Rightarrow> screen" where
  "socket_send c message s =
     (case c_socket c of None \<Rightarrow> s | Some ws \<Rightarrow> s\<lparr>sent := sent s @ [(ws, message)]\<rparr>)"

definition sendWebSocketMessage :: "closure \<Rightarrow> int \<Rightarrow> outbound \<Rightarrow> screen \<Rightarrow> bool \<times> screen" where
  "sendWebSocketMessage c now message s =
     (if socket_open c s then
        (let s1 = socket_send c message s;
             s2 = s1\<lparr>lastMessageSentTimeRef := now\<rparr>;
             s3 = (case messageResponseTimeoutRef s2 of
                     None \<Rightarrow> s2
                   | Some h \<Rightarrow> clearTimeout h s2)
         in (case setTimeout (ResponseTimeoutCheck c) 15000 now s3 of
               (h, s4) \<Rightarrow> (True, s4\<lparr>messageResponseTimeoutRef := Some h\<rparr>)))
      else (False, s))"

section \<open>Zone deletion\<close>

definition handleZoneDeleteConfirmation :: "closure \<Rightarrow> string \<Rightarrow> screen \<Rightarrow> screen" where
  "handleZoneDeleteConfirmation c zoneId s =
     (let s1 = s\<lparr>zones := filter (\<lambda>zone. zone_id zone \<noteq> zoneId) (zones s)\<rparr>;
          s2 = s1\<lparr>activeZones := activeZones s1 - {zoneId}\<rparr>;
          s3 = s2\<lparr>deletingZones := deletingZones s2 - {zoneId}\<rparr>;
          s4 = s3\<lparr>zoneLogs := (zoneLogs s3)(zoneId := None)\<rparr>
      in (case c_selectedZone c of
            None \<Rightarrow> s4
          | Some z \<Rightarrow> if zone_id z = zoneId then s4\<lparr>selectedZone := None, showLogs := False\<rparr> else s4))"

datatype alert_choice = Cancel | Delete

definition handleZoneDelete :: "closure \<Rightarrow> int \<Rightarrow> alert_choice \<Rightarrow> string \<Rightarrow> screen \<Rightarrow> screen" where
  \<comment> \<open>the confirmation dialog and the button the user presses in it\<close>
  "handleZoneDelete c now choice zoneId s =
     (case choice of
        Cancel \<Rightarrow> s
      | Delete \<Rightarrow>
          (let s1 = s\<lparr>deletingZones := insert zoneId (deletingZones s)\<rparr>
           in if socket_open c s1 then snd (sendWebSocketMessage c now (delete_zone zoneId) s1)
              else s1))"

section \<open>Inbound dispatch\<close>

definition Object_values :: "(string \<times> 'a) list \<Rightarrow> 'a list" where
  "Object_values obj = map snd obj"

definition dispatch :: "closure \<Rightarrow> inbound \<Rightarrow> screen \<Rightarrow> screen" where
  \<comment> \<open>the \<open>switch (messageType)\<close>, which both message handlers contain verbatim\<close>
  "dispatch c m s =
     (case m of
        zones_response data_zones \<Rightarrow>
          (case data_zones of None \<Rightarrow> s | Some obj \<Rightarrow> s\<lparr>zones := Object_values obj\<rparr>)
      | zone_deleted success data_zoneId \<Rightarrow>
          (case data_zoneId of
             None \<Rightarrow> s
           | Some zoneId \<Rightarrow>
               if success \<and> zoneId \<noteq> [] then handleZoneDeleteConfirmation c zoneId s else s)
      | zones_data data_zones \<Rightarrow>
          (case data_zones of None \<Rightarrow> s | Some obj \<Rightarrow> s\<lparr>zones := Object_values obj\<rparr>)
      | zone_logs_response data_logs \<Rightarrow>
          (case data_logs of
             None \<Rightarrow> s
           | Some obj \<Rightarrow> s\<lparr>zoneLogs := map_of obj, receivedZoneLogs := True\<rparr>)
      | fall_logs_response data_logs \<Rightarrow>
          (case data_logs of None \<Rightarrow> s | Some logs \<Rightarrow> s\<lparr>fallLogs := logs\<rparr>)
      | target_update data_targets \<Rightarrow>
          (case data_targets of None \<Rightarrow> s | Some ts \<Rightarrow> s\<lparr>targets := ts\<rparr>)
      | fall_event \<Rightarrow> s\<lparr>showFallAlert := True, newFallDetected := True\<rparr>
      | zone_event \<Rightarrow> s
      | pong \<Rightarrow> s
      | error_frame \<Rightarrow> s
      | unhandled ty \<Rightarrow> s)"

definition ws_onmessage :: "closure \<Rightarrow> int \<Rightarrow> frame \<Rightarrow> screen \<Rightarrow> screen" where
  \<comment> \<open>the handler that \<open>connectWebSocket\<close> installs on the socket\<close>
  "ws_onmessage c now fr s =
     (case fr of
        Malformed \<Rightarrow> s
      | Message m \<Rightarrow>
          dispatch c m (s\<lparr>lastMessageReceivedTimeRef := now, lastMessageTimeRef := now\<rparr>))"

definition handleWebSocketMessage :: "closure \<Rightarrow> int \<Rightarrow> frame \<Rightarrow> screen \<Rightarrow> screen" where
  \<comment> \<open>the \<open>useCallback\<close> handler of the same name; no socket has it installed\<close>
  "handleWebSocketMessage c now fr s =
     (case fr of
        Malformed \<Rightarrow> s
      | Message m \<Rightarrow>
          (let s1 = s\<lparr>lastMessageReceivedTimeRef := now, lastMessageTimeRef := now\<rparr>;
               s2 = (case messageResponseTimeoutRef s1 of
                       None \<Rightarrow> s1
                     | Some h \<Rightarrow> (clearTimeout h s1)\<lparr>messageResponseTimeoutRef := None\<rparr>)
           in dispatch c m s2))"

section \<open>Connection manager\<close>

definition Math_pow :: "number \<Rightarrow> nat \<Rightarrow> number" where
  \<comment> \<open>the power, rounded once; exact whenever the power is a double\<close>
  "Math_pow b n = fl (b ^ n)"

definition Math_round :: "number \<Rightarrow> int" where
  "Math_round q = \<lfloor>q + 1 / 2\<rfloor>"

definition retryDelay :: "nat \<Rightarrow> number" where
  \<comment> \<open>\<open>Math.min(5000 * Math.pow(1.5, connectionAttempts), maxReconnectDelay)\<close>\<close>
  "retryDelay attempts = min (js_mul 5000 (Math_pow (3 / 2) attempts)) maxReconnectDelay"

definition socket_close :: "websocket \<Rightarrow> screen \<Rightarrow> screen" where
  \<comment> \<open>\<open>socket.close(3001, ...)\<close>: a socket that is not yet closed starts closing\<close>
  "socket_close ws s =
     s\<lparr>readyState := (readyState s)
          (ws := (if readyState s ws = CLOSED then CLOSED else CLOSING))\<rparr>"

definition connectWebSocket :: "closure \<Rightarrow> int \<Rightarrow> screen \<Rightarrow> screen" where
  \<comment> \<open>the URL is a constant, so constructing the socket does not raise\<close>
  "connectWebSocket c now s =
     (if now - lastConnectionAttemptRef s < 5000 then s
      else if isConnectingRef s then s
      else if maxReconnectAttempts \<le> c_connectionAttempts c
        then s\<lparr>connectionStatus := Max_attempts_reached\<rparr>
      else
        (let s1 = s\<lparr>isConnectingRef := True, lastConnectionAttemptRef := now,
                    connectionStatus := Connecting\<rparr>;
             s2 = (case retryTimeoutRef s1 of
                     None \<Rightarrow> s1
                   | Some h \<Rightarrow> (clearTimeout h s1)\<lparr>retryTimeoutRef := None\<rparr>)
         in s2\<lparr>readyState := (readyState s2)(nextSocketId s2 := CONNECTING),
               nextSocketId := Suc (nextSocketId s2)\<rparr>))"

definition ws_onopen :: "websocket \<Rightarrow> screen \<Rightarrow> screen" where
  "ws_onopen ws s =
     s\<lparr>connectionStatus := Connected, connectionAttempts := 0, isConnectingRef := False,
       socket := Some ws\<rparr>"

definition ws_onclose :: "closure \<Rightarrow> int \<Rightarrow> nat \<Rightarrow> screen \<Rightarrow> screen" where
  \<comment> \<open>the arguments are the handler's closure, \<open>Date.now()\<close> and \<open>event.code\<close>\<close>
  "ws_onclose c now code s =
     (let s1 = s\<lparr>socket := None, isConnectingRef := False\<rparr>
      in if code = 1000 \<or> code = 1001 \<or> maxReconnectAttempts \<le> c_connectionAttempts c
         then s1\<lparr>connectionStatus := Disconnected\<rparr>
         else
           (let s2 = s1\<lparr>connectionAttempts := connectionAttempts s1 + 1\<rparr>;
                delay = retryDelay (c_connectionAttempts c);
                s3 = s2\<lparr>connectionStatus := Reconnecting_in (Math_round (js_div delay 1000))\<rparr>
            in (case setTimeout (CallConnectWebSocket c) delay now s3 of
                  (h, s4) \<Rightarrow> s4\<lparr>retryTimeoutRef := Some h\<rparr>)))"

definition forceReconnect :: "closure \<Rightarrow> int \<Rightarrow> screen \<Rightarrow> screen" where
  "forceReconnect c now s =
     (let s1 = (case c_socket c of None \<Rightarrow> s | Some ws \<Rightarrow> socket_close ws s);
          s2 = (case retryTimeoutRef s1 of
                  None \<Rightarrow> s1
                | Some h \<Rightarrow> (clearTimeout h s1)\<lparr>retryTimeoutRef := None\<rparr>);
          s3 = s2\<lparr>lastConnectionAttemptRef := now - 25000\<rparr>;
          s4 = (if 3 < c_connectionAttempts c then s3\<lparr>connectionAttempts := 3\<rparr> else s3)
      in snd (setTimeout (CallConnectWebSocket c) 1000 now s4))"

definition resetTimer_tick :: "screen \<Rightarrow> screen" where
  \<comment> \<open>the five-minute interval: \<open>if (connectionStatus === 'Connected') setConnectionAttempts(0)\<close>\<close>
  "resetTimer_tick s =
     (if connectionStatus s = Connected then s\<lparr>connectionAttempts := 0\<rparr> else s)"

definition responseTimeoutCheck :: "closure \<Rightarrow> int \<Rightarrow> screen \<Rightarrow> screen" where
  \<comment> \<open>the callback \<open>sendWebSocketMessage\<close> arms\<close>
  "responseTimeoutCheck c now s =
     (if 15000 < now - lastMessageReceivedTimeRef s then forceReconnect c now s else s)"

definition run_callback :: "callback \<Rightarrow> int \<Rightarrow> screen \<Rightarrow> screen" where
  "run_callback cb now s =
     (case cb of
        CallConnectWebSocket c \<Rightarrow> connectWebSocket c now s
      | ResponseTimeoutCheck c \<Rightarrow> responseTimeoutCheck c now s)"

definition fire_timeout :: "nat \<Rightarrow> int \<Rightarrow> screen \<Rightarrow> screen" where
  \<comment> \<open>the runtime runs an armed timeout once it is due and forgets it\<close>
  "fire_timeout h now s =
     (case find (\<lambda>t. timer_id t = h) (timeouts s) of
        None \<Rightarrow> s
      | Some t \<Rightarrow>
          if of_int (timer_set_at t) + timer_delay t \<le> of_int now
          then run_callback (timer_callback t) now (clearTimeout h s)
          else s)"

section \<open>Zone creation\<close>

text \<open>
  \<^verbatim>\<open>
  const handleNameSubmit = (name) => {
    if (!name.trim()) { Alert.alert("Invalid Name", ...); return; }
    if (zones.some(zone => zone.name.toLowerCase() === name.toLowerCase())) {
      Alert.alert("Name Already Exists", ...); return;
    }
    const zoneData = { id: `zone_${Date.now()}`, name: name.trim(), points: zonePoints };
    onZoneCreated(zoneData);
    ...
  };
  \<close>
  Strings are ASCII here: \<open>trim\<close> strips the ASCII white space and
  \<open>toLowerCase\<close> maps the letters A to Z.
\<close>

definition is_white_space :: "char \<Rightarrow> bool" where
  "is_white_space ch = (of_char ch \<in> {9, 10, 11, 12, 13, 32 :: nat})"

definition trim :: "string \<Rightarrow> string" where
  "trim str = rev (dropWhile is_white_space (rev (dropWhile is_white_space str)))"

definition toLowerCase :: "string \<Rightarrow> string" where
  "toLowerCase str =
     map (\<lambda>ch. if 65 \<le> (of_char ch :: nat) \<and> (of_char ch :: nat) \<le> 90
                then char_of (of_char ch + 32 :: nat) else ch) str"

fun decimal :: "nat \<Rightarrow> string" where
  "decimal n =
     (if n < 10 then [char_of (48 + n)] else decimal (n div 10) @ [char_of (48 + n mod 10)])"

declare decimal.simps [simp del]

definition String_of :: "int \<Rightarrow> string" where
  "String_of n = (if n < 0 then CHR ''-'' # decimal (nat (- n)) else decimal (nat n))"

definition handleNewZone :: "closure \<Rightarrow> int \<Rightarrow> zone \<Rightarrow> bool \<Rightarrow> screen \<Rightarrow> screen" where
  "handleNewZone c now zoneData skipWebSocketSend s =
     (let s1 = s\<lparr>zones :=
                  (case find (\<lambda>zone. zone_id zone = zone_id zoneData) (zones s) of
                     Some existing \<Rightarrow> zones s
                   | None \<Rightarrow> zones s @ [zoneData])\<rparr>
      in if \<not> skipWebSocketSend \<and> socket_open c s1 then
           (case sendWebSocketMessage c now (new_zone zoneData) s1 of
              (success, s2) \<Rightarrow>
                if success then s2\<lparr>pendingZones := insert (zone_id zoneData) (pendingZones s2)\<rparr>
                else s2)
         else s1)"

datatype alert = Invalid_Name | Name_Already_Exists

definition new_zoneData :: "int \<Rightarrow> point list \<Rightarrow> string \<Rightarrow> zone" where
  \<comment> \<open>\<open>{ id: `zone_${Date.now()}`, name: name.trim(), points: zonePoints }\<close>\<close>
  "new_zoneData now zonePoints name =
     \<lparr>zone_id = ''zone_'' @ String_of now, zone_name = trim name, zone_points = zonePoints\<rparr>"

definition handleNameSubmit ::
  "closure \<Rightarrow> int \<Rightarrow> point list \<Rightarrow> string \<Rightarrow> screen \<Rightarrow> alert option \<times> screen" where
  \<comment> \<open>\<open>RadarVisualization.handleNameSubmit\<close> with \<open>onZoneCreated = handleNewZone\<close>; the
      result says which alert, if any, was shown\<close>
  "handleNameSubmit c now zonePoints name s =
     (if trim name = [] then (Some Invalid_Name, s)
      else if find (\<lambda>zone. toLowerCase (zone_name zone) = toLowerCase name) (c_zones c) \<noteq> None
        then (Some Name_Already_Exists, s)
      else (None, handleNewZone c now (new_zoneData now zonePoints name) False s))"

section \<open>Events\<close>

text \<open>
  Handlers run to completion one after another.  An event is one such run; the runtime's
  own part of a socket event (the change of \<open>readyState\<close>) is folded into it.
  Pressing a zone (\<open>handleZonePress\<close>) selects it, opens its log view and sends a
  \<open>request_logs\<close> message; of these only the send, a \<open>Message_sent\<close> event,
  is among the events, so nothing below speaks of how a zone comes to be selected.
\<close>

datatype event =
    Frame_received closure int frame
  | Occupancy_effect int
  | Message_sent closure int outbound
  | Zone_delete_pressed closure int alert_choice string
  | Zone_name_submitted closure int "point list" string
  | Zone_pushed closure int zone bool
  | Force_reconnect closure int
  | Connect closure int
  | Socket_opened websocket
  | Socket_closed websocket closure int nat
  | Timeout_due nat int
  | Reset_tick

definition step :: "event \<Rightarrow> screen \<Rightarrow> screen" where
  "step ev s =
     (case ev of
        Frame_received c now fr \<Rightarrow> ws_onmessage c now fr s
      | Occupancy_effect now \<Rightarrow> occupancy_run now s
      | Message_sent c now message \<Rightarrow> snd (sendWebSocketMessage c now message s)
      | Zone_delete_pressed c now choice zoneId \<Rightarrow> handleZoneDelete c now choice zoneId s
      | Zone_name_submitted c now zonePoints name \<Rightarrow> snd (handleNameSubmit c now zonePoints name s)
      | Zone_pushed c now zoneData skip \<Rightarrow> handleNewZone c now zoneData skip s
      | Force_reconnect c now \<Rightarrow> forceReconnect c now s
      | Connect c now \<Rightarrow> connectWebSocket c now s
      | Socket_opened ws \<Rightarrow> ws_onopen ws (s\<lparr>readyState := (readyState s)(ws := OPEN)\<rparr>)
      | Socket_closed ws c now code \<Rightarrow>
          ws_onclose c now code (s\<lparr>readyState := (readyState s)(ws := CLOSED)\<rparr>)
      | Timeout_due h now \<Rightarrow> fire_timeout h now s
      | Reset_tick \<Rightarrow> resetTimer_tick s)"

subsection \<open>Kinds of events\<close>

definition confirms :: "string \<Rightarrow> event \<Rightarrow> bool" where
  \<comment> \<open>a \<open>zone_deleted\<close> frame with \<open>success\<close> true that carries the given id\<close>
  "confirms zid ev =
     (case ev of
        Frame_received c now fr \<Rightarrow> fr = Message (zone_deleted True (Some zid))
      | _ \<Rightarrow> False)"

definition replaces_zones :: "event \<Rightarrow> bool" where
  \<comment> \<open>a \<open>zones_response\<close> or \<open>zones_data\<close> frame that carries its \<open>zones\<close> object\<close>
  "replaces_zones ev =
     (case ev of
        Frame_received c now fr \<Rightarrow>
          (case fr of
             Malformed \<Rightarrow> False
           | Message m \<Rightarrow>
               (case m of
                  zones_response data_zones \<Rightarrow> data_zones \<noteq> None
                | zones_data data_zones \<Rightarrow> data_zones \<noteq> None
                | _ \<Rightarrow> False))
      | _ \<Rightarrow> False)"

definition replaces_logs :: "event \<Rightarrow> bool" where
  \<comment> \<open>a \<open>zone_logs_response\<close> frame that carries its \<open>logs\<close> object\<close>
  "replaces_logs ev =
     (case ev of
        Frame_received c now fr \<Rightarrow>
          (case fr of
             Malformed \<Rightarrow> False
           | Message m \<Rightarrow>
               (case m of zone_logs_response data_logs \<Rightarrow> data_logs \<noteq> None | _ \<Rightarrow> False))
      | _ \<Rightarrow> False)"

definition runs_engine :: "event \<Rightarrow> bool" where
  "runs_engine ev = (case ev of Occupancy_effect now \<Rightarrow> True | _ \<Rightarrow> False)"

section \<open>Scenarios\<close>

definition target_inside :: target where
  "target_inside = \<lparr>target_id = ''t1'', target_x = 1 / 2, target_y = 1 / 2\<rparr>"


definition mounted :: screen where
  "mounted = initial_screen 0"

definition scenario_zone_loaded :: screen where
  \<comment> \<open>the server pushes the unit square; no target is tracked yet\<close>
  "scenario_zone_loaded =
     occupancy_run 900
       (ws_onmessage (current_closure mounted) 900
          (Message (zones_response (Some [(''zone_1'', unit_square)]))) mounted)"

definition scenario_target_arrives :: screen where
  \<comment> \<open>a first target appears inside the square\<close>
  "scenario_target_arrives =
     ws_onmessage (current_closure mounted) 1000
       (Message (target_update (Some [target_inside]))) scenario_zone_loaded"

definition scenario_entered :: screen where
  "scenario_entered = occupancy_run 1000 scenario_target_arrives"



definition scenario_connecting :: screen where
  "scenario_connecting = step (Connect (current_closure mounted) 10000) mounted"

definition scenario_connected :: screen where
  \<comment> \<open>the first socket, number 1, reports open\<close>
  "scenario_connected = step (Socket_opened 1) scenario_connecting"

definition scenario_ping_sent :: screen where
  "scenario_ping_sent =
     step (Message_sent (current_closure scenario_connected) 11000 ping) scenario_connected"

definition scenario_pong_received :: screen where
  "scenario_pong_received =
     step (Frame_received (current_closure scenario_connected) 11500 (Message pong))
       scenario_ping_sent"







definition closure_after_two_failures :: closure where
  "closure_after_two_failures =
     \<lparr>c_socket = Some 1, c_connectionAttempts = 2, c_selectedZone = None, c_zones = []\<rparr>"

definition scenario_zone_in_use :: screen where
  \<comment> \<open>on the open socket the server pushes the unit square, then a target inside it;
      the socket's handler is the one the mounting render installed\<close>
  "scenario_zone_in_use =
     step (Occupancy_effect 10600)
       (step (Frame_received (current_closure mounted) 10600
                (Message (target_update (Some [target_inside]))))
          (step (Occupancy_effect 10500)
             (step (Frame_received (current_closure mounted) 10500
                      (Message (zones_response (Some [(''zone_1'', unit_square)]))))
                scenario_connected)))"

definition scenario_delete_requested :: screen where
  \<comment> \<open>the user confirms the deletion of the unit square; the request goes out\<close>
  "scenario_delete_requested =
     step (Zone_delete_pressed (current_closure scenario_zone_in_use) 12000 Delete ''zone_1'')
       scenario_zone_in_use"

definition scenario_zones_resent :: screen where
  \<comment> \<open>before any confirmation the server answers a \<open>request_zones\<close> with no zone\<close>
  "scenario_zones_resent =
     step (Frame_received (current_closure mounted) 12500
             (Message (zones_response (Some [])))) scenario_delete_requested"

definition scenario_logs_resent :: screen where
  \<comment> \<open>or it answers a \<open>request_logs\<close> with no log\<close>
  "scenario_logs_resent =
     step (Frame_received (current_closure mounted) 12500
             (Message (zone_logs_response (Some [])))) scenario_delete_requested"

definition triangle :: "point list" where
  "triangle = [\<lparr>point_x = 2, point_y = 2\<rparr>, \<lparr>point_x = 3, point_y = 2\<rparr>,
               \<lparr>point_x = 2, point_y = 3\<rparr>]"

definition scenario_first_zone_named :: screen where
  "scenario_first_zone_named =
     step (Zone_name_submitted (current_closure mounted) 1700000000000
             (zone_points unit_square) ''Kitchen'') mounted"

text \<open>
  A recovery after two failed attempts.  Each attempt is made by the render that follows
  the previous close, and each socket keeps the handlers of the render that created it:
  socket 3 is created while the counter is 2, opens, and is closed abnormally later.
\<close>

definition scenario_first_failure :: screen where
  "scenario_first_failure =
     step (Socket_closed 1 (current_closure mounted) 20000 1006) scenario_connecting"

definition scenario_second_failure :: screen where
  "scenario_second_failure =
     step (Socket_closed 2 (current_closure scenario_first_failure) 30000 1006)
       (step (Connect (current_closure scenario_first_failure) 20001) scenario_first_failure)"

definition scenario_recovered :: screen where
  "scenario_recovered =
     step (Socket_opened 3)
       (step (Connect (current_closure scenario_second_failure) 30001) scenario_second_failure)"

definition scenario_dropped_again :: screen where
  "scenario_dropped_again =
     step (Socket_closed 3 (current_closure scenario_second_failure) 100000 1006)
       scenario_recovered"

section \<open>Geometry: proofs\<close>

lemma zip_shorter_append: "length xs \<le> length ys \<Longrightarrow> zip xs (ys @ zs) = zip xs ys"
proof (induction xs arbitrary: ys)
  case Nil
  then show ?case by simp
next
  case (Cons x xs)
  then show ?case by (cases ys) simp_all
qed

lemma zip_tl_butlast: "zip (tl ps) (butlast ps) = zip (tl ps) ps"
proof (cases "ps = []")
  case True
  then show ?thesis by simp
next
  case False
  then have "zip (tl ps) (butlast ps @ [last ps]) = zip (tl ps) (butlast ps)"
    by (intro zip_shorter_append) simp
  with False show ?thesis by simp
qed

lemma edges_Cons: "ps \<noteq> [] \<Longrightarrow> edges ps = (hd ps, last ps) # zip (tl ps) ps"
proof -
  assume ne: "ps \<noteq> []"
  then have "zip ps (last ps # butlast ps) = (hd ps, last ps) # zip (tl ps) (butlast ps)"
    by (cases ps) simp_all
  with ne show ?thesis
    by (simp only: edges_def zip_tl_butlast if_False)
qed

lemma isTargetInZone_loop_tail:
  assumes "0 < i" and "i \<le> length ps"
  shows "isTargetInZone_loop t ps i (int i - 1) b =
           Inr (b \<noteq> odd (length (filter (crosses t) (zip (drop i ps) (drop (i - 1) ps)))))"
  using assms
proof (induction "length ps - i" arbitrary: i b)
  case 0
  then have "i = length ps" by simp
  then show ?case by (simp add: isTargetInZone_loop.simps)
next
  case (Suc n)
  then have lt: "i < length ps" by simp
  from Suc.prems lt have di: "drop i ps = ps ! i # drop (Suc i) ps"
    by (simp add: Cons_nth_drop_Suc)
  from Suc.prems lt have dj: "drop (i - 1) ps = ps ! (i - 1) # drop i ps"
    using Cons_nth_drop_Suc [of "i - 1" ps] by simp
  have step: "isTargetInZone_loop t ps (Suc i) (int (Suc i) - 1) b' =
      Inr (b' \<noteq> odd (length (filter (crosses t) (zip (drop (Suc i) ps) (drop i ps)))))" for b'
    using Suc.hyps(1) [of "Suc i" b'] Suc.hyps(2) lt by simp
  have vj: "points_at ps (int i - 1) = Inr (ps ! (i - 1))"
    using Suc.prems lt by (simp add: points_at_def nat_diff_distrib')
  have vi: "points_at ps (int i) = Inr (ps ! i)"
    using lt by (simp add: points_at_def)
  have "zip (drop i ps) (drop (i - 1) ps) = (ps ! i, ps ! (i - 1)) # zip (drop (Suc i) ps) (drop i ps)"
    using di dj by simp
  then show ?case
    using step lt vi vj
    by (subst isTargetInZone_loop.simps) (auto simp: crosses_def)
qed

lemma isTargetInZone_loop_start:
  "isTargetInZone_loop t ps 0 (int (length ps) - 1) False = Inr (pointInPolygon t ps)"
proof (cases "ps = []")
  case True
  then show ?thesis
    by (simp add: isTargetInZone_loop.simps pointInPolygon_def edges_def)
next
  case False
  have p0: "points_at ps 0 = Inr (hd ps)"
    using False by (simp add: points_at_def hd_conv_nth)
  have pl: "points_at ps (int (length ps) - 1) = Inr (last ps)"
    using False by (simp add: points_at_def last_conv_nth nat_diff_distrib')
  have rest: "isTargetInZone_loop t ps (Suc 0) 0 b =
      Inr (b \<noteq> odd (length (filter (crosses t) (zip (tl ps) ps))))" for b
    using isTargetInZone_loop_tail [of "Suc 0" ps t b] False
    by (simp add: drop_Suc Suc_le_eq)
  have "isTargetInZone_loop t ps 0 (int (length ps) - 1) False =
      isTargetInZone_loop t ps (Suc 0) 0 (crosses t (hd ps, last ps))"
    using False p0 pl by (subst isTargetInZone_loop.simps) (simp add: crosses_def)
  then show ?thesis
    using False by (simp add: rest pointInPolygon_def edges_Cons)
qed

lemma isTargetInZone_total: "isTargetInZone t z = Inr (pointInPolygon t (zone_points z))"
  by (simp add: isTargetInZone_def isTargetInZone_loop_start)













section \<open>Degenerate polygons\<close>

lemma isTargetInZone_at_most_one_vertex:
  "length (zone_points z) \<le> 1 \<Longrightarrow> isTargetInZone p z = Inr False"
  by (cases "zone_points z"; cases "tl (zone_points z)")
    (auto simp: isTargetInZone_total pointInPolygon_def edges_def crosses_def)

text \<open>
  Claim C9, as stated, fails for a polygon of two vertices.  The loop visits its one edge
  twice, once in each direction, and the two x-intersections are rounded separately.  For
  the segment from (0, 0) to (1, 3) and the height 1 they come out as
  0.3333333333333333 and 0.33333333333333337, so the point
  (0.3333333333333333, 1) toggles the parity once and is reported inside.
\<close>

theorem two_vertex_zone_counterexample:
  "isTargetInZone \<lparr>target_id = ''t1'', target_x = fl (1 / 3), target_y = 1\<rparr>
     \<lparr>zone_id = ''zone_2'', zone_name = ''segment'',
      zone_points = [\<lparr>point_x = 0, point_y = 0\<rparr>, \<lparr>point_x = 1, point_y = 3\<rparr>]\<rparr> = Inr True"
  by code_simp

text \<open>
  Claim C9, amended.  The test never raises.  On a polygon of zero or one vertex it
  returns false for every point, so the occupancy engine never finds a target in such a
  zone.  On a polygon of two vertices it returns true exactly when the crossing test
  differs between the two directions of the edge.
\<close>

theorem degenerate_zone_never_raises:
  "(\<exists>r. isTargetInZone p z = Inr r)
   \<and> (length (zone_points z) \<le> 1 \<longrightarrow>
        isTargetInZone p z = Inr False \<and> targetsInZone ts z = [] \<and> \<not> zone_occupied ts z)
   \<and> (zone_points z = [a, b] \<longrightarrow>
        isTargetInZone p z = Inr (crosses p (a, b) \<noteq> crosses p (b, a)))"
proof -
  have "targetsInZone ts z = []" if "length (zone_points z) \<le> 1"
    using that by (simp add: targetsInZone_def isTargetInZone_at_most_one_vertex)
  then show ?thesis
    by (auto simp: isTargetInZone_at_most_one_vertex zone_occupied_def)
      (auto simp: isTargetInZone_total pointInPolygon_def edges_def)
qed

theorem degenerate_zone_never_raises_witness:
  "length (zone_points \<lparr>zone_id = ''zone_3'', zone_name = ''dot'',
      zone_points = [\<lparr>point_x = 0, point_y = 0\<rparr>]\<rparr>) \<le> 1
   \<and> isTargetInZone \<lparr>target_id = ''t1'', target_x = 0, target_y = 0\<rparr>
       \<lparr>zone_id = ''zone_3'', zone_name = ''dot'',
        zone_points = [\<lparr>point_x = 0, point_y = 0\<rparr>]\<rparr> = Inr False
   \<and> isTargetInZone \<lparr>target_id = ''t1'', target_x = 0, target_y = 1\<rparr>
       \<lparr>zone_id = ''zone_2'', zone_name = ''segment'',
        zone_points = [\<lparr>point_x = 0, point_y = 0\<rparr>, \<lparr>point_x = 1, point_y = 3\<rparr>]\<rparr> =
       Inr (crosses \<lparr>target_id = ''t1'', target_x = 0, target_y = 1\<rparr>
              (\<lparr>point_x = 0, point_y = 0\<rparr>, \<lparr>point_x = 1, point_y = 3\<rparr>) \<noteq>
            crosses \<lparr>target_id = ''t1'', target_x = 0, target_y = 1\<rparr>
              (\<lparr>point_x = 1, point_y = 3\<rparr>, \<lparr>point_x = 0, point_y = 0\<rparr>))"
  using degenerate_zone_never_raises
          [of "\<lparr>target_id = ''t1'', target_x = 0, target_y = 0\<rparr>"
              "\<lparr>zone_id = ''zone_3'', zone_name = ''dot'',
                zone_points = [\<lparr>point_x = 0, point_y = 0\<rparr>]\<rparr>"]
        degenerate_zone_never_raises
          [of "\<lparr>target_id = ''t1'', target_x = 0, target_y = 1\<rparr>"
              "\<lparr>zone_id = ''zone_2'', zone_name = ''segment'',
                zone_points = [\<lparr>point_x = 0, point_y = 0\<rparr>, \<lparr>point_x = 1, point_y = 3\<rparr>]\<rparr>"
              _ "\<lparr>point_x = 0, point_y = 0\<rparr>" "\<lparr>point_x = 1, point_y = 3\<rparr>"]
  by simp

section \<open>Occupancy engine: proofs\<close>














text \<open>
  The batched update only writes \<open>zoneLogs\<close> (by a functional update) and
  \<open>activeZones\<close>, and the effect reads neither.  So an animation frame that is
  still pending when the effect runs again can be applied before or after that run with
  the same outcome, and \<open>occupancy_run\<close>, which applies it at once, loses nothing.
\<close>

lemma occupancy_effect_after_frame:
  "occupancy_effect now (batchedUpdates nl cur s) =
     (batchedUpdates nl cur (fst (occupancy_effect now s)), snd (occupancy_effect now s))"
  by (simp add: occupancy_effect_def batchedUpdates_def split: prod.splits)











section \<open>Inbound dispatch: proofs\<close>

lemma handleZoneDeleteConfirmation_twice:
  "handleZoneDeleteConfirmation c z (handleZoneDeleteConfirmation c z s) =
   handleZoneDeleteConfirmation c z s"
  by (cases "c_selectedZone c") (simp_all add: handleZoneDeleteConfirmation_def Let_def)

lemma dispatch_twice: "dispatch c m (dispatch c m s) = dispatch c m s"
  by (cases m) (simp_all add: dispatch_def handleZoneDeleteConfirmation_twice split: option.splits)

lemma dispatch_times:
  "dispatch c m (s\<lparr>lastMessageReceivedTimeRef := a, lastMessageTimeRef := b\<rparr>) =
   (dispatch c m s)\<lparr>lastMessageReceivedTimeRef := a, lastMessageTimeRef := b\<rparr>"
  by (cases m; cases "c_selectedZone c")
    (simp_all add: dispatch_def handleZoneDeleteConfirmation_def Let_def split: option.splits)

text \<open>
  Claim C4, as stated, fails for the occupancy log: the entries the occupancy engine
  derives are appended to the same \<open>zoneLogs\<close> map that a \<open>zone_logs_response\<close>
  replaces.  After the unit-square scenario the map holds one client-derived entry for
  the zone; a response whose payload lists no entry for it leaves none.
\<close>

theorem zone_logs_response_discards_client_entries:
  "logs_of scenario_entered ''zone_1'' =
     [\<lparr>timestamp = 1000, entry_type = occupied, targetCount = 1, entry_targets = [target_inside]\<rparr>]
   \<and> logs_of (ws_onmessage (current_closure scenario_entered) 3000
                 (Message (zone_logs_response (Some [(''zone_1'', [])]))) scenario_entered)
        ''zone_1'' = []"
  by code_simp

text \<open>
  Claim C4, amended.  A resync response that carries its payload replaces the matching
  collection (zones, zone-logs map, fall logs) with the payload, whatever the collection
  held; handling any frame a second time leaves the state the first handling produced,
  so a replayed resync duplicates nothing.  Zones and fall-log responses leave the
  zone-logs map as it is; a zone-logs response replaces the whole map, the
  client-derived occupancy entries included.
\<close>

theorem resync_responses_replace:
  "zones (ws_onmessage c now (Message (zones_response (Some obj))) s) = Object_values obj
   \<and> zones (ws_onmessage c now (Message (zones_data (Some obj))) s) = Object_values obj
   \<and> zoneLogs (ws_onmessage c now (Message (zone_logs_response (Some logs))) s) = map_of logs
   \<and> fallLogs (ws_onmessage c now (Message (fall_logs_response (Some falls))) s) = falls
   \<and> ws_onmessage c now' fr (ws_onmessage c now fr s) = ws_onmessage c now' fr s
   \<and> zoneLogs (ws_onmessage c now (Message (zones_response data_zones)) s) = zoneLogs s
   \<and> zoneLogs (ws_onmessage c now (Message (zones_data data_zones)) s) = zoneLogs s
   \<and> zoneLogs (ws_onmessage c now (Message (fall_logs_response data_falls)) s) = zoneLogs s"
proof -
  have twice: "ws_onmessage c now' fr (ws_onmessage c now fr s) = ws_onmessage c now' fr s"
  proof (cases fr)
    case Malformed
    then show ?thesis by (simp add: ws_onmessage_def)
  next
    case (Message m)
    then show ?thesis
      by (simp add: ws_onmessage_def dispatch_times dispatch_twice)
  qed
  show ?thesis
    using twice by (simp add: ws_onmessage_def dispatch_def split: option.splits)
qed

section \<open>Connection manager: proofs\<close>

lemma retryDelay_values:
  "retryDelay 0 = 5000" "retryDelay (Suc 0) = 7500" "retryDelay 2 = 11250"
  "retryDelay 3 = 16875" "retryDelay 4 = 50625 / 2"
  by code_simp+

lemma backoff_values:
  "min (5000 * (3 / 2) ^ 0) 30000 = (5000 :: rat)"
  "min (5000 * (3 / 2) ^ Suc 0) 30000 = (7500 :: rat)"
  "min (5000 * (3 / 2) ^ 2) 30000 = (11250 :: rat)"
  "min (5000 * (3 / 2) ^ 3) 30000 = (16875 :: rat)"
  "min (5000 * (3 / 2) ^ 4) 30000 = (50625 / 2 :: rat)"
  by (simp_all add: power_divide)

lemma below_five:
  assumes "n < (5::nat)"
  obtains "n = 0" | "n = Suc 0" | "n = 2" | "n = 3" | "n = 4"
  using assms by arith

lemma retryDelay_formula:
  assumes "n < 5"
  shows "retryDelay n = min (5000 * (3 / 2) ^ n) 30000"
  using assms
  by (cases n rule: below_five) (simp_all only: retryDelay_values backoff_values)

lemma retryDelay_mono:
  assumes "m \<le> n" and "n < 5"
  shows "retryDelay m \<le> retryDelay n"
proof -
  have mm: "m = 0 \<or> m = Suc 0 \<or> m = 2 \<or> m = 3 \<or> m = 4"
    using assms by arith
  have nn: "n = 0 \<or> n = Suc 0 \<or> n = 2 \<or> n = 3 \<or> n = 4"
    using assms by arith
  from mm nn assms(1) show ?thesis
    by (elim disjE) (simp_all add: retryDelay_values)
qed

lemma retryDelay_cap: "retryDelay n \<le> 30000"
  by (simp add: retryDelay_def maxReconnectDelay_def)

text \<open>
  The backoff as a close handler computes it.  On an abnormal close whose handler reads
  the failure counter \<open>n < 5\<close>, the retry timer is armed with
  \<open>min (5000 * 1.5 ^ n) 30000\<close> milliseconds and the live counter is incremented.
  Over \<open>n < 5\<close> the delays are non-decreasing, they never exceed 30000, and the
  live counter returns to zero (delay 5000) when a socket opens and at every reset tick
  while the status is \<open>Connected\<close>.
\<close>

theorem reconnect_backoff:
  "(c_connectionAttempts c < 5 \<longrightarrow> code \<noteq> 1000 \<longrightarrow> code \<noteq> 1001 \<longrightarrow>
      timeouts (ws_onclose c now code s) =
        timeouts s @
          [\<lparr>timer_id = nextTimerId s, timer_set_at = now,
            timer_delay = min (5000 * (3 / 2) ^ c_connectionAttempts c) 30000,
            timer_callback = CallConnectWebSocket c\<rparr>]
      \<and> retryTimeoutRef (ws_onclose c now code s) = Some (nextTimerId s)
      \<and> connectionAttempts (ws_onclose c now code s) = connectionAttempts s + 1)
   \<and> (n < 5 \<longrightarrow> retryDelay n = min (5000 * (3 / 2) ^ n) 30000)
   \<and> (m \<le> n \<longrightarrow> n < 5 \<longrightarrow> retryDelay m \<le> retryDelay n)
   \<and> retryDelay n \<le> 30000
   \<and> retryDelay 0 = 5000
   \<and> connectionAttempts (ws_onopen ws s) = 0
   \<and> (connectionStatus s = Connected \<longrightarrow> connectionAttempts (resetTimer_tick s) = 0)"
proof -
  have close: "timeouts (ws_onclose c now code s) =
        timeouts s @
          [\<lparr>timer_id = nextTimerId s, timer_set_at = now,
            timer_delay = min (5000 * (3 / 2) ^ c_connectionAttempts c) 30000,
            timer_callback = CallConnectWebSocket c\<rparr>]
      \<and> retryTimeoutRef (ws_onclose c now code s) = Some (nextTimerId s)
      \<and> connectionAttempts (ws_onclose c now code s) = connectionAttempts s + 1"
    if "c_connectionAttempts c < 5" and "code \<noteq> 1000" and "code \<noteq> 1001"
    using that retryDelay_formula [of "c_connectionAttempts c"]
    by (simp add: ws_onclose_def Let_def setTimeout_def maxReconnectAttempts_def)
  show ?thesis
    using close retryDelay_formula retryDelay_mono retryDelay_cap
    by (simp add: retryDelay_values ws_onopen_def resetTimer_tick_def)
qed


theorem reconnect_backoff_witness:
  "c_connectionAttempts closure_after_two_failures < 5
   \<and> timeouts (ws_onclose closure_after_two_failures 50000 1006 mounted) =
       [\<lparr>timer_id = 1, timer_set_at = 50000, timer_delay = 11250,
         timer_callback = CallConnectWebSocket closure_after_two_failures\<rparr>]
   \<and> retryTimeoutRef (ws_onclose closure_after_two_failures 50000 1006 mounted) = Some 1
   \<and> connectionAttempts (ws_onclose closure_after_two_failures 50000 1006 mounted) = 1
   \<and> retryDelay 2 = 11250
   \<and> retryDelay 2 \<le> retryDelay 3
   \<and> connectionStatus scenario_connected = Connected
   \<and> connectionAttempts (resetTimer_tick scenario_connected) = 0"
proof -
  have a: "c_connectionAttempts closure_after_two_failures = 2"
    by (simp add: closure_after_two_failures_def)
  have t: "timeouts mounted = []" and i: "nextTimerId mounted = 1"
    and n: "connectionAttempts mounted = 0"
    by (simp_all add: mounted_def initial_screen_def)
  have p: "min (5000 * (3 / 2) ^ 2) 30000 = (11250 :: rat)"
    by (simp add: power_divide)
  have c: "connectionStatus scenario_connected = Connected"
    by code_simp
  show ?thesis
    using reconnect_backoff [of closure_after_two_failures 1006 50000 mounted 2 2 1]
      reconnect_backoff [of closure_after_two_failures 1006 50000 scenario_connected 3 2 1]
    by (simp add: a t i n p c power_divide)
qed


lemma recovered_counter: "connectionAttempts scenario_recovered = 0"
  by code_simp

lemma recovered_status: "connectionStatus scenario_recovered = Connected"
  by code_simp

lemma dropped_again_timers: "map timer_delay (timeouts scenario_dropped_again) = [11250]"
  by code_simp

lemma dropped_again_counter: "connectionAttempts scenario_dropped_again = 1"
  by code_simp

text \<open>
  Claim C5 says that an abnormal close with failure counter \<open>n < 5\<close> arms the
  retry timer with \<open>min (5000 * 1.5 ^ n) 30000\<close> milliseconds, so that the delays
  never decrease over consecutive failures, never exceed 30000, and go back to the base
  value with the counter once a connection is established.  This does not hold of
  every close.  The handler increments the live counter but
  computes the delay from the counter its own render saw, and a socket keeps the handler
  it was created with.  In the recovery scenario two attempts fail, the third socket is
  created while the counter is 2 and opens: the counter is back to 0 and the status is
  \<open>Connected\<close>.  When this connection drops, the retry timer is armed with
  11250 ms, the delay for a counter of 2, and not with the base delay of 5000 ms.
\<close>

theorem close_after_recovery_arms_old_delay:
  "connectionAttempts scenario_recovered = 0
   \<and> connectionStatus scenario_recovered = Connected
   \<and> map timer_delay (timeouts scenario_dropped_again) = [11250]
   \<and> connectionAttempts scenario_dropped_again = 1"
  using recovered_counter recovered_status dropped_again_timers dropped_again_counter
  by simp

lemma forceReconnect_fields:
  "connectionAttempts (forceReconnect c now s) =
     (if 3 < c_connectionAttempts c then 3 else connectionAttempts s)"
  "lastConnectionAttemptRef (forceReconnect c now s) = now - 25000"
  "retryTimeoutRef (forceReconnect c now s) = None"
  "isConnectingRef (forceReconnect c now s) = isConnectingRef s"
  "timeouts (forceReconnect c now s) =
     (case retryTimeoutRef s of
        None \<Rightarrow> timeouts s
      | Some h \<Rightarrow> filter (\<lambda>t. timer_id t \<noteq> h) (timeouts s)) @
     [\<lparr>timer_id = nextTimerId s, timer_set_at = now, timer_delay = 1000,
       timer_callback = CallConnectWebSocket c\<rparr>]"
  "readyState (forceReconnect c now s) =
     (case c_socket c of
        None \<Rightarrow> readyState s
      | Some ws \<Rightarrow> (readyState s)(ws := (if readyState s ws = CLOSED then CLOSED else CLOSING)))"
  by (simp_all add: forceReconnect_def Let_def setTimeout_def clearTimeout_def socket_close_def
      split: option.splits)




text \<open>
  What a forced reconnect does to the state, for the render that issues it: the failure
  counter becomes the smaller of its value and 3; the last-attempt marker is set 25
  seconds back; the retry timer is cancelled; the socket the render holds starts
  closing; and one new timer is armed that calls \<open>connectWebSocket\<close> of that same
  render after 1000 ms.
\<close>

lemma forceReconnect_current_render:
  "connectionAttempts (forceReconnect (current_closure s) now s) = min 3 (connectionAttempts s)
   \<and> connectionAttempts (forceReconnect (current_closure s) now s) \<le> 3
   \<and> lastConnectionAttemptRef (forceReconnect (current_closure s) now s) = now - 25000
   \<and> \<not> (now + 1000 - lastConnectionAttemptRef (forceReconnect (current_closure s) now s) < 5000)
   \<and> retryTimeoutRef (forceReconnect (current_closure s) now s) = None
   \<and> timeouts (forceReconnect (current_closure s) now s) =
       (case retryTimeoutRef s of
          None \<Rightarrow> timeouts s
        | Some h \<Rightarrow> filter (\<lambda>t. timer_id t \<noteq> h) (timeouts s)) @
       [\<lparr>timer_id = nextTimerId s, timer_set_at = now, timer_delay = 1000,
         timer_callback = CallConnectWebSocket (current_closure s)\<rparr>]
   \<and> (case socket s of
         None \<Rightarrow> True
       | Some ws \<Rightarrow> readyState (forceReconnect (current_closure s) now s) ws \<in> {CLOSING, CLOSED})"
  by (auto simp: forceReconnect_fields current_closure_def split: option.splits)

text \<open>
  The callback that a forced reconnect schedules reads the failure counter of the render
  that issued it, not the clamped one.  Fired with nothing in between, it connects when
  that render saw fewer than five failures and no attempt is under way, and it stops at
  the attempts guard when that render saw five or more.
\<close>

lemma find_last_only:
  "\<forall>y\<in>set xs. \<not> P y \<Longrightarrow> P x \<Longrightarrow> find P (xs @ [x]) = Some x"
  by (induction xs) simp_all

lemma scheduled_timer_found:
  assumes "\<forall>t\<in>set (timeouts s). timer_id t \<noteq> nextTimerId s"
  shows "find (\<lambda>t. timer_id t = nextTimerId s)
           (timeouts (forceReconnect (current_closure s) now s)) =
         Some \<lparr>timer_id = nextTimerId s, timer_set_at = now, timer_delay = 1000,
               timer_callback = CallConnectWebSocket (current_closure s)\<rparr>"
proof -
  let ?new = "\<lparr>timer_id = nextTimerId s, timer_set_at = now, timer_delay = 1000,
       timer_callback = CallConnectWebSocket (current_closure s)\<rparr>"
  let ?old = "case retryTimeoutRef s of
        None \<Rightarrow> timeouts s
      | Some h \<Rightarrow> filter (\<lambda>t. timer_id t \<noteq> h) (timeouts s)"
  have "\<forall>t\<in>set ?old. \<not> (timer_id t = nextTimerId s)"
    using assms by (auto split: option.splits)
  then have "find (\<lambda>t. timer_id t = nextTimerId s) (?old @ [?new]) = Some ?new"
    by (intro find_last_only) simp_all
  then show ?thesis
    by (simp add: forceReconnect_fields)
qed

lemma scheduled_attempt_reads_its_render:
  assumes "\<forall>t\<in>set (timeouts s). timer_id t \<noteq> nextTimerId s"
    and "5 \<le> connectionAttempts s" and "\<not> isConnectingRef s"
  shows "connectionStatus
           (fire_timeout (nextTimerId s) (now + 1000) (forceReconnect (current_closure s) now s)) =
         Max_attempts_reached"
  unfolding fire_timeout_def scheduled_timer_found [OF assms(1)]
  using assms(2,3)
  by (simp add: run_callback_def connectWebSocket_def clearTimeout_def
      forceReconnect_fields current_closure_def maxReconnectAttempts_def)

lemma scheduled_attempt_connects_below_five:
  assumes "\<forall>t\<in>set (timeouts s). timer_id t \<noteq> nextTimerId s"
    and "connectionAttempts s < 5" and "\<not> isConnectingRef s"
  shows "connectionStatus
           (fire_timeout (nextTimerId s) (now + 1000) (forceReconnect (current_closure s) now s)) =
         Connecting"
  unfolding fire_timeout_def scheduled_timer_found [OF assms(1)]
  using assms(2,3)
  by (simp add: run_callback_def connectWebSocket_def clearTimeout_def Let_def
      forceReconnect_fields current_closure_def maxReconnectAttempts_def split: option.splits)








section \<open>Pending-response timer: proofs\<close>

lemma dispatch_keeps_timers:
  "messageResponseTimeoutRef (dispatch c m s) = messageResponseTimeoutRef s
   \<and> timeouts (dispatch c m s) = timeouts s"
  by (cases m; cases "c_selectedZone c")
    (simp_all add: dispatch_def handleZoneDeleteConfirmation_def Let_def split: option.splits)

text \<open>
  Claim C8 says that at most one pending-response timer exists: every successful send
  arms one 15-second timer in place of the previous one, every inbound message that
  arrives before it fires clears it, and when it fires with no recent message a forced
  reconnect follows.  The clearing does not hold of the handler that is installed on the
  socket.
  \<open>ws.onmessage\<close> records the arrival times and dispatches, and never touches the
  pending-response timer: whatever frame arrives, the timer armed by the last send stays
  armed and the ref keeps its handle.  The sibling \<open>handleWebSocketMessage\<close>, which
  no socket uses, clears both.  Concretely: a ping is sent at 11000 on the open socket
  and a pong arrives at 11500.
\<close>

theorem ws_onmessage_keeps_response_timer:
  "messageResponseTimeoutRef (ws_onmessage c now fr s) = messageResponseTimeoutRef s
   \<and> timeouts (ws_onmessage c now fr s) = timeouts s
   \<and> messageResponseTimeoutRef (handleWebSocketMessage c now (Message m) s) = None
   \<and> messageResponseTimeoutRef scenario_ping_sent = Some 1
   \<and> timeouts scenario_ping_sent =
       [\<lparr>timer_id = 1, timer_set_at = 11000, timer_delay = 15000,
         timer_callback = ResponseTimeoutCheck (current_closure scenario_connected)\<rparr>]
   \<and> messageResponseTimeoutRef scenario_pong_received = Some 1
   \<and> timeouts scenario_pong_received = timeouts scenario_ping_sent
   \<and> timeouts (handleWebSocketMessage (current_closure scenario_connected) 11500 (Message pong)
        scenario_ping_sent) = []"
proof -
  have a: "messageResponseTimeoutRef (ws_onmessage c now fr s) = messageResponseTimeoutRef s
      \<and> timeouts (ws_onmessage c now fr s) = timeouts s" for c now fr s
    by (cases fr) (simp_all add: ws_onmessage_def dispatch_keeps_timers)
  have b: "messageResponseTimeoutRef (handleWebSocketMessage c now (Message m) s) = None"
    by (cases "messageResponseTimeoutRef s")
      (simp_all add: handleWebSocketMessage_def dispatch_keeps_timers clearTimeout_def)
  have c: "messageResponseTimeoutRef scenario_ping_sent = Some 1" by code_simp
  have d: "timeouts scenario_ping_sent =
       [\<lparr>timer_id = 1, timer_set_at = 11000, timer_delay = 15000,
         timer_callback = ResponseTimeoutCheck (current_closure scenario_connected)\<rparr>]"
    by code_simp
  have e: "timeouts (handleWebSocketMessage (current_closure scenario_connected) 11500 (Message pong)
        scenario_ping_sent) = []"
    by (simp add: handleWebSocketMessage_def c d dispatch_keeps_timers clearTimeout_def)
  show ?thesis
    using a b c d e by (simp add: scenario_pong_received_def step_def)
qed

section \<open>Zone deletion: proofs\<close>

lemma sendWebSocketMessage_collections:
  "zones (snd (sendWebSocketMessage c now message s)) = zones s"
  "activeZones (snd (sendWebSocketMessage c now message s)) = activeZones s"
  "deletingZones (snd (sendWebSocketMessage c now message s)) = deletingZones s"
  "zoneLogs (snd (sendWebSocketMessage c now message s)) = zoneLogs s"
  "selectedZone (snd (sendWebSocketMessage c now message s)) = selectedZone s"
  by (simp_all add: sendWebSocketMessage_def socket_send_def setTimeout_def clearTimeout_def Let_def
      split: option.splits)

lemma handleZoneDelete_collections:
  "zones (handleZoneDelete c now choice zid s) = zones s"
  "activeZones (handleZoneDelete c now choice zid s) = activeZones s"
  "zoneLogs (handleZoneDelete c now choice zid s) = zoneLogs s"
  "selectedZone (handleZoneDelete c now choice zid s) = selectedZone s"
  "deletingZones (handleZoneDelete c now choice zid s) =
     (case choice of Cancel \<Rightarrow> deletingZones s | Delete \<Rightarrow> insert zid (deletingZones s))"
  by (cases choice; simp add: handleZoneDelete_def Let_def sendWebSocketMessage_collections)+

lemma occupancy_run_deleting: "deletingZones (occupancy_run now s) = deletingZones s"
  by (simp add: occupancy_run_def occupancy_effect_def batchedUpdates_def
      split: prod.splits option.splits)

lemma forceReconnect_deleting: "deletingZones (forceReconnect c now s) = deletingZones s"
  by (simp add: forceReconnect_def Let_def setTimeout_def clearTimeout_def socket_close_def
      split: option.splits)

lemma connectWebSocket_deleting: "deletingZones (connectWebSocket c now s) = deletingZones s"
  by (simp add: connectWebSocket_def Let_def clearTimeout_def split: option.splits)

lemma ws_onclose_deleting: "deletingZones (ws_onclose c now code s) = deletingZones s"
  by (simp add: ws_onclose_def Let_def setTimeout_def)

lemma fire_timeout_deleting: "deletingZones (fire_timeout h now s) = deletingZones s"
proof -
  have "deletingZones (run_callback cb now' s') = deletingZones s'" for cb now' s'
    by (cases cb)
      (simp_all add: run_callback_def responseTimeoutCheck_def forceReconnect_deleting
        connectWebSocket_deleting)
  then show ?thesis
    by (simp add: fire_timeout_def clearTimeout_def split: option.splits)
qed

lemma handleNewZone_deleting: "deletingZones (handleNewZone c now z skip s) = deletingZones s"
  by (simp add: handleNewZone_def Let_def sendWebSocketMessage_def socket_send_def setTimeout_def
      clearTimeout_def split: option.splits prod.splits)

lemma handleNameSubmit_deleting:
  "deletingZones (snd (handleNameSubmit c now pts name s)) = deletingZones s"
  by (simp add: handleNameSubmit_def Let_def handleNewZone_deleting)

lemma dispatch_deleting:
  "deletingZones (dispatch c m s) =
     (case m of
        zone_deleted success data_zoneId \<Rightarrow>
          (case data_zoneId of
             None \<Rightarrow> deletingZones s
           | Some z \<Rightarrow> if success \<and> z \<noteq> [] then deletingZones s - {z} else deletingZones s)
      | _ \<Rightarrow> deletingZones s)"
  by (cases m; cases "c_selectedZone c")
    (simp_all add: dispatch_def handleZoneDeleteConfirmation_def Let_def split: option.splits)

lemma step_keeps_deleting:
  assumes "\<forall>c now. ev \<noteq> Frame_received c now (Message (zone_deleted True (Some zid)))"
    and "zid \<in> deletingZones s"
  shows "zid \<in> deletingZones (step ev s)"
proof (cases ev)
  case (Frame_received c now fr)
  show ?thesis
  proof (cases fr)
    case Malformed
    with Frame_received assms(2) show ?thesis by (simp add: step_def ws_onmessage_def)
  next
    case (Message m)
    with Frame_received assms have "m \<noteq> zone_deleted True (Some zid)" by auto
    with Frame_received Message assms(2) show ?thesis
      by (cases m) (auto simp: step_def ws_onmessage_def dispatch_deleting split: option.splits)
  qed
next
  case (Zone_delete_pressed c now choice z)
  with assms(2) show ?thesis
    by (cases choice) (simp_all add: step_def handleZoneDelete_collections)
qed (use assms(2) in \<open>simp_all add: step_def occupancy_run_deleting sendWebSocketMessage_collections
      handleNameSubmit_deleting handleNewZone_deleting forceReconnect_deleting
      connectWebSocket_deleting ws_onclose_deleting fire_timeout_deleting
      ws_onopen_def resetTimer_tick_def\<close>)

lemma confirmation_removes:
  assumes "zid \<noteq> []"
  shows "zones (ws_onmessage c now (Message (zone_deleted True (Some zid))) s) =
           filter (\<lambda>zone. zone_id zone \<noteq> zid) (zones s)"
    and "activeZones (ws_onmessage c now (Message (zone_deleted True (Some zid))) s) =
           activeZones s - {zid}"
    and "deletingZones (ws_onmessage c now (Message (zone_deleted True (Some zid))) s) =
           deletingZones s - {zid}"
    and "zoneLogs (ws_onmessage c now (Message (zone_deleted True (Some zid))) s) =
           (zoneLogs s)(zid := None)"
    and "selectedZone (ws_onmessage c now (Message (zone_deleted True (Some zid))) s) =
           (case c_selectedZone c of
              None \<Rightarrow> selectedZone s
            | Some z \<Rightarrow> if zone_id z = zid then None else selectedZone s)"
  using assms
  by (cases "c_selectedZone c";
      simp add: ws_onmessage_def dispatch_def handleZoneDeleteConfirmation_def Let_def)+

lemma confirms_iff:
  "confirms zid ev \<longleftrightarrow>
     (\<exists>c now. ev = Frame_received c now (Message (zone_deleted True (Some zid))))"
  by (cases ev) (auto simp: confirms_def)

lemma fold_append_logs_defined:
  "m k \<noteq> None \<Longrightarrow>
   fold (\<lambda>(zoneId, es) updatedLogs.
           updatedLogs(zoneId \<mapsto> (case updatedLogs zoneId of None \<Rightarrow> [] | Some old \<Rightarrow> old) @ es))
        nl m k \<noteq> None"
  (is "_ \<Longrightarrow> fold ?f nl m k \<noteq> None")
proof (induction nl arbitrary: m)
  case Nil
  then show ?case by simp
next
  case (Cons a nl)
  obtain k0 es0 where a: "a = (k0, es0)" by (cases a)
  define m' where "m' = m(k0 \<mapsto> (case m k0 of None \<Rightarrow> [] | Some old \<Rightarrow> old) @ es0)"
  have unfold: "fold ?f (a # nl) m k = fold ?f nl m' k"
    by (simp add: a m'_def)
  from Cons.prems have "m' k \<noteq> None" by (simp add: m'_def)
  then have "fold ?f nl m' k \<noteq> None" by (rule Cons.IH)
  then show ?case unfolding unfold .
qed

lemma occupancy_run_collections:
  "zones (occupancy_run now s) = zones s"
  "zoneLogs s k \<noteq> None \<Longrightarrow> zoneLogs (occupancy_run now s) k \<noteq> None"
proof -
  show "zones (occupancy_run now s) = zones s"
    by (simp add: occupancy_run_def occupancy_effect_def batchedUpdates_def
        split: prod.splits option.splits)
  assume d: "zoneLogs s k \<noteq> None"
  show "zoneLogs (occupancy_run now s) k \<noteq> None"
  proof (cases "snd (occupancy_effect now s)")
    case None
    then have "zoneLogs (occupancy_run now s) = zoneLogs s"
      by (auto simp: occupancy_run_def occupancy_effect_def split: prod.splits if_splits)
    with d show ?thesis by simp
  next
    case (Some u)
    obtain nl cur where u: "u = (nl, cur)" by (cases u)
    obtain s' where e: "occupancy_effect now s = (s', Some (nl, cur))"
      using Some u by (cases "occupancy_effect now s") simp
    then have "zoneLogs s' = zoneLogs s"
      by (auto simp: occupancy_effect_def split: prod.splits if_splits)
    with d have "zoneLogs s' k \<noteq> None" by simp
    then have "zoneLogs (batchedUpdates nl cur s') k \<noteq> None"
      unfolding batchedUpdates_def by (simp add: fold_append_logs_defined)
    with e show ?thesis by (simp add: occupancy_run_def)
  qed
qed

lemma forceReconnect_collections:
  "zones (forceReconnect c now s) = zones s"
  "activeZones (forceReconnect c now s) = activeZones s"
  "zoneLogs (forceReconnect c now s) = zoneLogs s"
  by (simp_all add: forceReconnect_def Let_def setTimeout_def clearTimeout_def socket_close_def
      split: option.splits)

lemma connectWebSocket_collections:
  "zones (connectWebSocket c now s) = zones s"
  "activeZones (connectWebSocket c now s) = activeZones s"
  "zoneLogs (connectWebSocket c now s) = zoneLogs s"
  by (simp_all add: connectWebSocket_def Let_def clearTimeout_def split: option.splits)

lemma ws_onclose_collections:
  "zones (ws_onclose c now code s) = zones s"
  "activeZones (ws_onclose c now code s) = activeZones s"
  "zoneLogs (ws_onclose c now code s) = zoneLogs s"
  by (simp_all add: ws_onclose_def Let_def setTimeout_def)

lemma fire_timeout_collections:
  "zones (fire_timeout h now s) = zones s"
  "activeZones (fire_timeout h now s) = activeZones s"
  "zoneLogs (fire_timeout h now s) = zoneLogs s"
proof -
  have "zones (run_callback cb now' s') = zones s'
      \<and> activeZones (run_callback cb now' s') = activeZones s'
      \<and> zoneLogs (run_callback cb now' s') = zoneLogs s'" for cb now' s'
    by (cases cb)
      (simp_all add: run_callback_def responseTimeoutCheck_def forceReconnect_collections
        connectWebSocket_collections)
  then show "zones (fire_timeout h now s) = zones s"
    "activeZones (fire_timeout h now s) = activeZones s"
    "zoneLogs (fire_timeout h now s) = zoneLogs s"
    by (simp_all add: fire_timeout_def clearTimeout_def split: option.splits)
qed

lemma handleNewZone_collections:
  "set (zones s) \<subseteq> set (zones (handleNewZone c now z skip s))"
  "activeZones (handleNewZone c now z skip s) = activeZones s"
  "zoneLogs (handleNewZone c now z skip s) = zoneLogs s"
  by (auto simp: handleNewZone_def Let_def sendWebSocketMessage_def socket_send_def setTimeout_def
      clearTimeout_def split: option.splits prod.splits)

lemma handleNameSubmit_collections:
  "set (zones s) \<subseteq> set (zones (snd (handleNameSubmit c now pts name s)))"
  "activeZones (snd (handleNameSubmit c now pts name s)) = activeZones s"
  "zoneLogs (snd (handleNameSubmit c now pts name s)) = zoneLogs s"
  using handleNewZone_collections(1) [of s c now "new_zoneData now pts name" False]
  by (simp_all add: handleNameSubmit_def Let_def handleNewZone_collections(2,3))

lemma dispatch_collections:
  "zones (dispatch c m s) =
     (case m of
        zones_response data_zones \<Rightarrow>
          (case data_zones of None \<Rightarrow> zones s | Some obj \<Rightarrow> Object_values obj)
      | zones_data data_zones \<Rightarrow>
          (case data_zones of None \<Rightarrow> zones s | Some obj \<Rightarrow> Object_values obj)
      | zone_deleted success data_zoneId \<Rightarrow>
          (case data_zoneId of
             None \<Rightarrow> zones s
           | Some z \<Rightarrow> if success \<and> z \<noteq> [] then filter (\<lambda>zone. zone_id zone \<noteq> z) (zones s)
                       else zones s)
      | _ \<Rightarrow> zones s)"
  "activeZones (dispatch c m s) =
     (case m of
        zone_deleted success data_zoneId \<Rightarrow>
          (case data_zoneId of
             None \<Rightarrow> activeZones s
           | Some z \<Rightarrow> if success \<and> z \<noteq> [] then activeZones s - {z} else activeZones s)
      | _ \<Rightarrow> activeZones s)"
  "zoneLogs (dispatch c m s) =
     (case m of
        zone_logs_response data_logs \<Rightarrow>
          (case data_logs of None \<Rightarrow> zoneLogs s | Some obj \<Rightarrow> map_of obj)
      | zone_deleted success data_zoneId \<Rightarrow>
          (case data_zoneId of
             None \<Rightarrow> zoneLogs s
           | Some z \<Rightarrow> if success \<and> z \<noteq> [] then (zoneLogs s)(z := None) else zoneLogs s)
      | _ \<Rightarrow> zoneLogs s)"
  by (cases m; cases "c_selectedZone c";
      simp add: dispatch_def handleZoneDeleteConfirmation_def Let_def split: option.splits)+

lemma step_keeps_zone:
  assumes "\<not> confirms zid ev" and "\<not> replaces_zones ev"
    and "z \<in> set (zones s)" and "zone_id z = zid"
  shows "z \<in> set (zones (step ev s))"
proof (cases ev)
  case (Frame_received c now fr)
  show ?thesis
  proof (cases fr)
    case Malformed
    with Frame_received assms(3) show ?thesis by (simp add: step_def ws_onmessage_def)
  next
    case (Message m)
    with Frame_received assms(1) have "m \<noteq> zone_deleted True (Some zid)"
      by (auto simp: confirms_def)
    with Frame_received Message assms(2,3,4) show ?thesis
      by (cases m)
        (auto simp: step_def ws_onmessage_def dispatch_collections replaces_zones_def
          split: option.splits)
  qed
next
  case (Zone_name_submitted c now pts name)
  with assms(3) handleNameSubmit_collections(1) [of s c now pts name] show ?thesis
    by (auto simp: step_def)
next
  case (Zone_pushed c now zoneData skip)
  with assms(3) handleNewZone_collections(1) [of s c now zoneData skip] show ?thesis
    by (auto simp: step_def)
qed (use assms(3) in \<open>simp_all add: step_def occupancy_run_collections
      sendWebSocketMessage_collections handleZoneDelete_collections forceReconnect_collections
      connectWebSocket_collections ws_onclose_collections fire_timeout_collections
      ws_onopen_def resetTimer_tick_def\<close>)

lemma step_keeps_active:
  assumes "\<not> confirms zid ev" and "\<not> runs_engine ev" and "zid \<in> activeZones s"
  shows "zid \<in> activeZones (step ev s)"
proof (cases ev)
  case (Frame_received c now fr)
  show ?thesis
  proof (cases fr)
    case Malformed
    with Frame_received assms(3) show ?thesis by (simp add: step_def ws_onmessage_def)
  next
    case (Message m)
    with Frame_received assms(1) have "m \<noteq> zone_deleted True (Some zid)"
      by (auto simp: confirms_def)
    with Frame_received Message assms(3) show ?thesis
      by (cases m)
        (auto simp: step_def ws_onmessage_def dispatch_collections split: option.splits)
  qed
next
  case (Occupancy_effect now)
  with assms(2) show ?thesis by (simp add: runs_engine_def)
qed (use assms(3) in \<open>simp_all add: step_def
      sendWebSocketMessage_collections handleZoneDelete_collections forceReconnect_collections
      connectWebSocket_collections ws_onclose_collections fire_timeout_collections
      handleNameSubmit_collections handleNewZone_collections
      ws_onopen_def resetTimer_tick_def\<close>)

lemma step_keeps_logs:
  assumes "\<not> confirms zid ev" and "\<not> replaces_logs ev" and "zoneLogs s zid \<noteq> None"
  shows "zoneLogs (step ev s) zid \<noteq> None"
proof (cases ev)
  case (Frame_received c now fr)
  show ?thesis
  proof (cases fr)
    case Malformed
    with Frame_received assms(3) show ?thesis by (simp add: step_def ws_onmessage_def)
  next
    case (Message m)
    with Frame_received assms(1) have "m \<noteq> zone_deleted True (Some zid)"
      by (auto simp: confirms_def)
    with Frame_received Message assms(2,3) show ?thesis
      by (cases m)
        (auto simp: step_def ws_onmessage_def dispatch_collections replaces_logs_def
          split: option.splits)
  qed
next
  case (Occupancy_effect now)
  with assms(3) show ?thesis by (simp add: step_def occupancy_run_collections)
qed (use assms(3) in \<open>simp_all add: step_def
      sendWebSocketMessage_collections handleZoneDelete_collections forceReconnect_collections
      connectWebSocket_collections ws_onclose_collections fire_timeout_collections
      handleNameSubmit_collections handleNewZone_collections
      ws_onopen_def resetTimer_tick_def\<close>)

lemma replace_frames:
  "zones (step (Frame_received c now (Message (zones_response (Some obj)))) s) = Object_values obj"
  "zones (step (Frame_received c now (Message (zones_data (Some obj)))) s) = Object_values obj"
  "zoneLogs (step (Frame_received c now (Message (zone_logs_response (Some logs)))) s) = map_of logs"
  by (simp_all add: step_def ws_onmessage_def dispatch_collections)

lemma delete_requested_deleting: "deletingZones scenario_delete_requested = {''zone_1''}"
  by code_simp
lemma delete_requested_zones: "zones scenario_delete_requested = [unit_square]"
  by code_simp
lemma delete_requested_active: "activeZones scenario_delete_requested = {''zone_1''}"
  by code_simp
lemma delete_requested_logged: "map_option length (zoneLogs scenario_delete_requested ''zone_1'') = Some 1"
  by code_simp
lemma delete_requested_sent: "sent scenario_delete_requested = [(1, delete_zone ''zone_1'')]"
  by code_simp

lemma event_kinds:
  "confirms zid ev \<longleftrightarrow>
     (\<exists>c now. ev = Frame_received c now (Message (zone_deleted True (Some zid))))"
  "replaces_zones ev \<longleftrightarrow>
     (\<exists>c now obj. ev = Frame_received c now (Message (zones_response (Some obj)))
        \<or> ev = Frame_received c now (Message (zones_data (Some obj))))"
  "replaces_logs ev \<longleftrightarrow>
     (\<exists>c now logs. ev = Frame_received c now (Message (zone_logs_response (Some logs))))"
  "runs_engine ev \<longleftrightarrow> (\<exists>now. ev = Occupancy_effect now)"
proof -
  show "confirms zid ev \<longleftrightarrow>
     (\<exists>c now. ev = Frame_received c now (Message (zone_deleted True (Some zid))))"
    by (rule confirms_iff)
  show "replaces_zones ev \<longleftrightarrow>
     (\<exists>c now obj. ev = Frame_received c now (Message (zones_response (Some obj)))
        \<or> ev = Frame_received c now (Message (zones_data (Some obj))))"
    by (auto simp: replaces_zones_def split: event.splits frame.splits inbound.splits)
  show "replaces_logs ev \<longleftrightarrow>
     (\<exists>c now logs. ev = Frame_received c now (Message (zone_logs_response (Some logs))))"
    by (auto simp: replaces_logs_def split: event.splits frame.splits inbound.splits)
  show "runs_engine ev \<longleftrightarrow> (\<exists>now. ev = Occupancy_effect now)"
    by (auto simp: runs_engine_def split: event.splits)
qed

lemma delete_requested_about_square:
  "unit_square \<in> set (zones scenario_delete_requested)"
  "zone_id unit_square = ''zone_1''"
  "zoneLogs scenario_delete_requested ''zone_1'' \<noteq> None"
  using delete_requested_logged
  by (auto simp: delete_requested_zones unit_square_def)

text \<open>
  Claim C6, as stated, fails for the zones list and the zone-logs map.  The unit square
  is in use on the open socket and its deletion has been requested; the request is on
  the wire and no \<open>zone_deleted\<close> frame has arrived.  A \<open>zones_response\<close>
  frame that carries no zone empties the zones list, and a \<open>zone_logs_response\<close>
  frame that carries no log empties the zone-logs map, while the id is still in the
  deleting set.
\<close>

theorem resync_removes_zone_awaiting_confirmation:
  "sent scenario_delete_requested = [(1, delete_zone ''zone_1'')]
   \<and> deletingZones scenario_delete_requested = {''zone_1''}
   \<and> zones scenario_delete_requested = [unit_square]
   \<and> zoneLogs scenario_delete_requested ''zone_1'' \<noteq> None
   \<and> zones scenario_zones_resent = []
   \<and> deletingZones scenario_zones_resent = {''zone_1''}
   \<and> zoneLogs scenario_logs_resent ''zone_1'' = None
   \<and> deletingZones scenario_logs_resent = {''zone_1''}"
proof -
  have l: "zoneLogs scenario_delete_requested ''zone_1'' \<noteq> None"
    using delete_requested_logged by auto
  have a: "zones scenario_zones_resent = []"
    by (simp add: scenario_zones_resent_def replace_frames Object_values_def)
  have b: "zoneLogs scenario_logs_resent ''zone_1'' = None"
    by (simp add: scenario_logs_resent_def replace_frames)
  have c: "deletingZones scenario_zones_resent = {''zone_1''}"
    by (simp add: scenario_zones_resent_def step_def ws_onmessage_def dispatch_deleting
        delete_requested_deleting)
  have d: "deletingZones scenario_logs_resent = {''zone_1''}"
    by (simp add: scenario_logs_resent_def step_def ws_onmessage_def dispatch_deleting
        delete_requested_deleting)
  show ?thesis
    using l a b c d delete_requested_sent delete_requested_deleting delete_requested_zones
    by simp
qed

text \<open>
  Claim C6, amended.  Confirming the deletion dialog, even twice, changes none of the
  zones list, the active-zone set, the zone-logs map and the selected zone, and puts the
  zone id into the deleting set.  From then on the id stays in the deleting set, so the
  zone is never absent from all collections, through every event except a
  \<open>zone_deleted\<close> frame with \<open>success\<close> true that carries this id.  Such a
  frame with a non-empty id removes the zone from the zones list, the active-zone set,
  the deleting set and the zone-logs map.  Apart from that frame, the zone leaves the
  zones list only when a \<open>zones_response\<close> or \<open>zones_data\<close> frame replaces the
  list by its payload, its entry leaves the zone-logs map only when a
  \<open>zone_logs_response\<close> frame replaces the map by its payload, and its id leaves
  the active-zone set only when the occupancy engine recomputes the set.
\<close>

theorem zone_deletion_two_phase:
  "zones (handleZoneDelete c2 now2 Delete zid (handleZoneDelete c1 now1 Delete zid s)) = zones s
   \<and> activeZones (handleZoneDelete c2 now2 Delete zid (handleZoneDelete c1 now1 Delete zid s)) =
       activeZones s
   \<and> zoneLogs (handleZoneDelete c2 now2 Delete zid (handleZoneDelete c1 now1 Delete zid s)) =
       zoneLogs s
   \<and> selectedZone (handleZoneDelete c2 now2 Delete zid (handleZoneDelete c1 now1 Delete zid s)) =
       selectedZone s
   \<and> deletingZones (handleZoneDelete c2 now2 Delete zid (handleZoneDelete c1 now1 Delete zid s)) =
       insert zid (deletingZones s)
   \<and> (\<not> confirms zid ev \<longrightarrow> zid \<in> deletingZones s \<longrightarrow> zid \<in> deletingZones (step ev s))
   \<and> (\<not> confirms zid ev \<longrightarrow> \<not> replaces_zones ev \<longrightarrow> z \<in> set (zones s) \<longrightarrow> zone_id z = zid \<longrightarrow>
        z \<in> set (zones (step ev s)))
   \<and> (\<not> confirms zid ev \<longrightarrow> \<not> runs_engine ev \<longrightarrow> zid \<in> activeZones s \<longrightarrow>
        zid \<in> activeZones (step ev s))
   \<and> (\<not> confirms zid ev \<longrightarrow> \<not> replaces_logs ev \<longrightarrow> zoneLogs s zid \<noteq> None \<longrightarrow>
        zoneLogs (step ev s) zid \<noteq> None)
   \<and> (confirms zid ev \<longleftrightarrow>
        (\<exists>c now. ev = Frame_received c now (Message (zone_deleted True (Some zid)))))
   \<and> (replaces_zones ev \<longleftrightarrow>
        (\<exists>c now obj. ev = Frame_received c now (Message (zones_response (Some obj)))
           \<or> ev = Frame_received c now (Message (zones_data (Some obj)))))
   \<and> (replaces_logs ev \<longleftrightarrow>
        (\<exists>c now logs. ev = Frame_received c now (Message (zone_logs_response (Some logs)))))
   \<and> (runs_engine ev \<longleftrightarrow> (\<exists>now. ev = Occupancy_effect now))
   \<and> (zid \<noteq> [] \<longrightarrow>
        zones (step (Frame_received c now (Message (zone_deleted True (Some zid)))) s) =
          filter (\<lambda>zone. zone_id zone \<noteq> zid) (zones s)
        \<and> zid \<notin> zone_id ` set (zones (step (Frame_received c now (Message (zone_deleted True (Some zid)))) s))
        \<and> zid \<notin> activeZones (step (Frame_received c now (Message (zone_deleted True (Some zid)))) s)
        \<and> zid \<notin> deletingZones (step (Frame_received c now (Message (zone_deleted True (Some zid)))) s)
        \<and> zoneLogs (step (Frame_received c now (Message (zone_deleted True (Some zid)))) s) zid = None)
   \<and> zones (step (Frame_received c now (Message (zones_response (Some obj)))) s) = Object_values obj
   \<and> zones (step (Frame_received c now (Message (zones_data (Some obj)))) s) = Object_values obj
   \<and> zoneLogs (step (Frame_received c now (Message (zone_logs_response (Some logs)))) s) = map_of logs"
proof -
  have keep: "zid \<in> deletingZones (step ev s)" if "\<not> confirms zid ev" and "zid \<in> deletingZones s"
    using that step_keeps_deleting [of ev zid s] by (simp add: confirms_iff)
  have removed:
    "zones (step (Frame_received c now (Message (zone_deleted True (Some zid)))) s) =
       filter (\<lambda>zone. zone_id zone \<noteq> zid) (zones s)
     \<and> zid \<notin> zone_id ` set (zones (step (Frame_received c now (Message (zone_deleted True (Some zid)))) s))
     \<and> zid \<notin> activeZones (step (Frame_received c now (Message (zone_deleted True (Some zid)))) s)
     \<and> zid \<notin> deletingZones (step (Frame_received c now (Message (zone_deleted True (Some zid)))) s)
     \<and> zoneLogs (step (Frame_received c now (Message (zone_deleted True (Some zid)))) s) zid = None"
    if "zid \<noteq> []"
    using that by (auto simp: step_def confirmation_removes)
  have twice:
    "zones (handleZoneDelete c2 now2 Delete zid (handleZoneDelete c1 now1 Delete zid s)) = zones s
     \<and> activeZones (handleZoneDelete c2 now2 Delete zid (handleZoneDelete c1 now1 Delete zid s)) =
         activeZones s
     \<and> zoneLogs (handleZoneDelete c2 now2 Delete zid (handleZoneDelete c1 now1 Delete zid s)) =
         zoneLogs s
     \<and> selectedZone (handleZoneDelete c2 now2 Delete zid (handleZoneDelete c1 now1 Delete zid s)) =
         selectedZone s
     \<and> deletingZones (handleZoneDelete c2 now2 Delete zid (handleZoneDelete c1 now1 Delete zid s)) =
         insert zid (deletingZones s)"
    by (simp add: handleZoneDelete_collections)
  have kinds:
    "(confirms zid ev \<longleftrightarrow>
        (\<exists>c now. ev = Frame_received c now (Message (zone_deleted True (Some zid)))))
     \<and> (replaces_zones ev \<longleftrightarrow>
        (\<exists>c now obj. ev = Frame_received c now (Message (zones_response (Some obj)))
           \<or> ev = Frame_received c now (Message (zones_data (Some obj)))))
     \<and> (replaces_logs ev \<longleftrightarrow>
        (\<exists>c now logs. ev = Frame_received c now (Message (zone_logs_response (Some logs)))))
     \<and> (runs_engine ev \<longleftrightarrow> (\<exists>now. ev = Occupancy_effect now))"
    using event_kinds(1) [of zid ev] event_kinds(2-4) [of ev] by simp
  have kept:
    "(\<not> confirms zid ev \<longrightarrow> zid \<in> deletingZones s \<longrightarrow> zid \<in> deletingZones (step ev s))
     \<and> (\<not> confirms zid ev \<longrightarrow> \<not> replaces_zones ev \<longrightarrow> z \<in> set (zones s) \<longrightarrow> zone_id z = zid \<longrightarrow>
          z \<in> set (zones (step ev s)))
     \<and> (\<not> confirms zid ev \<longrightarrow> \<not> runs_engine ev \<longrightarrow> zid \<in> activeZones s \<longrightarrow>
          zid \<in> activeZones (step ev s))
     \<and> (\<not> confirms zid ev \<longrightarrow> \<not> replaces_logs ev \<longrightarrow> zoneLogs s zid \<noteq> None \<longrightarrow>
          zoneLogs (step ev s) zid \<noteq> None)"
    using keep step_keeps_zone [of zid ev z s] step_keeps_active [of zid ev s]
      step_keeps_logs [of zid ev s]
    by blast
  show ?thesis
    by (intro conjI twice [THEN conjunct1] twice [THEN conjunct2, THEN conjunct1]
        twice [THEN conjunct2, THEN conjunct2, THEN conjunct1]
        twice [THEN conjunct2, THEN conjunct2, THEN conjunct2, THEN conjunct1]
        twice [THEN conjunct2, THEN conjunct2, THEN conjunct2, THEN conjunct2]
        kept [THEN conjunct1] kept [THEN conjunct2, THEN conjunct1]
        kept [THEN conjunct2, THEN conjunct2, THEN conjunct1]
        kept [THEN conjunct2, THEN conjunct2, THEN conjunct2]
        kinds [THEN conjunct1] kinds [THEN conjunct2, THEN conjunct1]
        kinds [THEN conjunct2, THEN conjunct2, THEN conjunct1]
        kinds [THEN conjunct2, THEN conjunct2, THEN conjunct2]
        removed [THEN impI [of "zid \<noteq> []"]] replace_frames)
      (use removed in blast)
qed

theorem zone_deletion_two_phase_witness:
  "\<not> confirms ''zone_1''
       (Frame_received (current_closure mounted) 12500
          (Message (zone_deleted False (Some ''zone_1''))))
   \<and> ''zone_1'' \<in> deletingZones scenario_delete_requested
   \<and> unit_square \<in> set (zones scenario_delete_requested)
   \<and> zone_id unit_square = ''zone_1''
   \<and> ''zone_1'' \<in> activeZones scenario_delete_requested
   \<and> zoneLogs scenario_delete_requested ''zone_1'' \<noteq> None
   \<and> ''zone_1'' \<in> deletingZones
        (step (Frame_received (current_closure mounted) 12500
                 (Message (zone_deleted False (Some ''zone_1'')))) scenario_delete_requested)
   \<and> unit_square \<in> set (zones
        (step (Frame_received (current_closure mounted) 12500
                 (Message (zone_deleted False (Some ''zone_1'')))) scenario_delete_requested))
   \<and> ''zone_1'' \<in> activeZones
        (step (Frame_received (current_closure mounted) 12500
                 (Message (zone_deleted False (Some ''zone_1'')))) scenario_delete_requested)
   \<and> zoneLogs
        (step (Frame_received (current_closure mounted) 12500
                 (Message (zone_deleted False (Some ''zone_1'')))) scenario_delete_requested)
        ''zone_1'' \<noteq> None
   \<and> zones (step (Frame_received (current_closure mounted) 13000
        (Message (zone_deleted True (Some ''zone_1'')))) scenario_delete_requested) = []
   \<and> ''zone_1'' \<notin> activeZones (step (Frame_received (current_closure mounted) 13000
        (Message (zone_deleted True (Some ''zone_1'')))) scenario_delete_requested)
   \<and> ''zone_1'' \<notin> deletingZones (step (Frame_received (current_closure mounted) 13000
        (Message (zone_deleted True (Some ''zone_1'')))) scenario_delete_requested)
   \<and> zoneLogs (step (Frame_received (current_closure mounted) 13000
        (Message (zone_deleted True (Some ''zone_1'')))) scenario_delete_requested) ''zone_1'' = None"
proof -
  let ?ev = "Frame_received (current_closure mounted) 12500
               (Message (zone_deleted False (Some ''zone_1'')))"
  have k: "\<not> confirms ''zone_1'' ?ev" "\<not> replaces_zones ?ev" "\<not> runs_engine ?ev"
      "\<not> replaces_logs ?ev"
    by (simp_all add: confirms_def replaces_zones_def runs_engine_def replaces_logs_def)
  have n: "''zone_1'' \<noteq> []" by simp
  note t = zone_deletion_two_phase
      [where zid = "''zone_1''" and s = scenario_delete_requested and ev = ?ev
         and z = unit_square and c = "current_closure mounted" and now = 13000]
  have d: "''zone_1'' \<in> deletingZones scenario_delete_requested"
    and a: "''zone_1'' \<in> activeZones scenario_delete_requested"
    by (simp_all add: delete_requested_deleting delete_requested_active)
  have kept: "''zone_1'' \<in> deletingZones (step ?ev scenario_delete_requested)
      \<and> unit_square \<in> set (zones (step ?ev scenario_delete_requested))
      \<and> ''zone_1'' \<in> activeZones (step ?ev scenario_delete_requested)
      \<and> zoneLogs (step ?ev scenario_delete_requested) ''zone_1'' \<noteq> None"
    using t k d a delete_requested_about_square by blast
  have gone: "zones (step (Frame_received (current_closure mounted) 13000
        (Message (zone_deleted True (Some ''zone_1'')))) scenario_delete_requested) =
          filter (\<lambda>zone. zone_id zone \<noteq> ''zone_1'') (zones scenario_delete_requested)
      \<and> ''zone_1'' \<notin> activeZones (step (Frame_received (current_closure mounted) 13000
        (Message (zone_deleted True (Some ''zone_1'')))) scenario_delete_requested)
      \<and> ''zone_1'' \<notin> deletingZones (step (Frame_received (current_closure mounted) 13000
        (Message (zone_deleted True (Some ''zone_1'')))) scenario_delete_requested)
      \<and> zoneLogs (step (Frame_received (current_closure mounted) 13000
        (Message (zone_deleted True (Some ''zone_1'')))) scenario_delete_requested) ''zone_1'' = None"
    using t n by blast
  then have "zones (step (Frame_received (current_closure mounted) 13000
        (Message (zone_deleted True (Some ''zone_1'')))) scenario_delete_requested) = []"
    by (simp add: delete_requested_zones delete_requested_about_square)
  with kept gone k d a delete_requested_about_square show ?thesis
    by blast
qed

text \<open>
  The selected zone is cleared by the confirmation only when the render whose handler is
  installed on the socket saw that zone selected.  The handler of a render in which no
  zone was selected leaves the selection as it is.
\<close>

lemma confirmation_reads_selection_of_its_render:
  "c_selectedZone c = None \<Longrightarrow>
   selectedZone (step (Frame_received c now (Message (zone_deleted success data_zoneId))) s) =
     selectedZone s"
  by (simp add: step_def ws_onmessage_def dispatch_def handleZoneDeleteConfirmation_def Let_def
      split: option.splits)

section \<open>Zone creation: proofs\<close>

lemma zones_sendWebSocketMessage: "zones (snd (sendWebSocketMessage c now message s)) = zones s"
  by (simp add: sendWebSocketMessage_def socket_send_def setTimeout_def clearTimeout_def Let_def
      split: option.splits)

lemma zones_handleNewZone:
  "zones (handleNewZone c now z skip s) =
     (case find (\<lambda>zone. zone_id zone = zone_id z) (zones s) of
        Some existing \<Rightarrow> zones s
      | None \<Rightarrow> zones s @ [z])"
proof -
  define s1 where "s1 = s\<lparr>zones := (case find (\<lambda>zone. zone_id zone = zone_id z) (zones s) of
                             Some existing \<Rightarrow> zones s | None \<Rightarrow> zones s @ [z])\<rparr>"
  obtain success s2 where r: "sendWebSocketMessage c now (new_zone z) s1 = (success, s2)"
    by (cases "sendWebSocketMessage c now (new_zone z) s1")
  have "zones s2 = zones s1"
    using zones_sendWebSocketMessage [of c now "new_zone z" s1] by (simp add: r)
  then have "zones (handleNewZone c now z skip s) = zones s1"
    by (simp add: handleNewZone_def Let_def r s1_def [symmetric])
  then show ?thesis by (simp add: s1_def)
qed

lemma find_after_handleNewZone:
  "find (\<lambda>zone. zone_id zone = zone_id z) (zones (handleNewZone c now z skip s)) \<noteq> None"
proof (cases "find (\<lambda>zone. zone_id zone = zone_id z) (zones s)")
  case None
  then have "zones (handleNewZone c now z skip s) = zones s @ [z]"
    by (simp add: zones_handleNewZone)
  then show ?thesis by (auto simp: find_None_iff)
next
  case (Some x)
  then show ?thesis by (simp add: zones_handleNewZone)
qed

lemma digit_chars:
  "char_of (48 :: nat) = CHR ''0''" "char_of (49 :: nat) = CHR ''1''"
  "char_of (50 :: nat) = CHR ''2''" "char_of (51 :: nat) = CHR ''3''"
  "char_of (52 :: nat) = CHR ''4''" "char_of (53 :: nat) = CHR ''5''"
  "char_of (54 :: nat) = CHR ''6''" "char_of (55 :: nat) = CHR ''7''"
  "char_of (56 :: nat) = CHR ''8''" "char_of (57 :: nat) = CHR ''9''"
  by code_simp+

lemma String_of_example: "String_of 1700000000000 = ''1700000000000''"
  by (simp add: String_of_def decimal.simps digit_chars)

lemma name_examples:
  "trim ''Kitchen'' = ''Kitchen''" "trim ''Hall'' = ''Hall''"
  "toLowerCase ''Kitchen'' \<noteq> toLowerCase ''Hall''"
  by code_simp+

lemma first_zone_named:
  "handleNameSubmit (current_closure mounted) 1700000000000 (zone_points unit_square) ''Kitchen'' mounted =
     (None, scenario_first_zone_named)"
  "zones scenario_first_zone_named =
      [\<lparr>zone_id = ''zone_1700000000000'', zone_name = ''Kitchen'', zone_points = zone_points unit_square\<rparr>]"
  by (simp_all add: scenario_first_zone_named_def step_def handleNameSubmit_def handleNewZone_def
      new_zoneData_def String_of_example name_examples mounted_def initial_screen_def
      current_closure_def socket_open_def)

text \<open>
  Claim C10.  The id of a locally created zone is \<open>zone_\<close> followed by the creation
  time in milliseconds and depends on nothing else.  When a first submission has gone
  through and a second one, in the same millisecond, passes the name checks (against the
  zones its render knows), the second shows no alert and leaves the Zones list as the
  first left it: its polygon is not in the list.
\<close>

theorem same_millisecond_second_zone_discarded:
  "zone_id (new_zoneData now pts1 name1) = ''zone_'' @ String_of now
   \<and> zone_id (new_zoneData now pts1 name1) = zone_id (new_zoneData now pts2 name2)
   \<and> (fst (handleNameSubmit c1 now pts1 name1 s) = None \<longrightarrow>
        trim name2 \<noteq> [] \<longrightarrow>
        find (\<lambda>zone. toLowerCase (zone_name zone) = toLowerCase name2) (c_zones c2) = None \<longrightarrow>
          fst (handleNameSubmit c2 now pts2 name2 (snd (handleNameSubmit c1 now pts1 name1 s))) = None
          \<and> zones (snd (handleNameSubmit c2 now pts2 name2 (snd (handleNameSubmit c1 now pts1 name1 s)))) =
              zones (snd (handleNameSubmit c1 now pts1 name1 s)))"
proof -
  let ?s1 = "snd (handleNameSubmit c1 now pts1 name1 s)"
  have ids: "zone_id (new_zoneData now pts1 name1) = zone_id (new_zoneData now pts2 name2)"
    by (simp add: new_zoneData_def)
  have second: "fst (handleNameSubmit c2 now pts2 name2 ?s1) = None
      \<and> zones (snd (handleNameSubmit c2 now pts2 name2 ?s1)) = zones ?s1"
    if first: "fst (handleNameSubmit c1 now pts1 name1 s) = None"
      and blank: "trim name2 \<noteq> []"
      and fresh: "find (\<lambda>zone. toLowerCase (zone_name zone) = toLowerCase name2) (c_zones c2) = None"
  proof -
    from first have s1: "?s1 = handleNewZone c1 now (new_zoneData now pts1 name1) False s"
      by (simp add: handleNameSubmit_def split: if_splits)
    have "find (\<lambda>zone. zone_id zone = zone_id (new_zoneData now pts2 name2)) (zones ?s1) \<noteq> None"
      unfolding s1 ids [symmetric] by (rule find_after_handleNewZone)
    then have "zones (handleNewZone c2 now (new_zoneData now pts2 name2) False ?s1) = zones ?s1"
      by (auto simp: zones_handleNewZone split: option.splits)
    with blank fresh show ?thesis
      by (simp add: handleNameSubmit_def)
  qed
  from ids second show ?thesis by (simp add: new_zoneData_def)
qed

theorem same_millisecond_second_zone_discarded_witness:
  "fst (handleNameSubmit (current_closure mounted) 1700000000000 (zone_points unit_square) ''Kitchen'' mounted) = None
   \<and> trim ''Hall'' \<noteq> []
   \<and> zones scenario_first_zone_named =
      [\<lparr>zone_id = ''zone_1700000000000'', zone_name = ''Kitchen'', zone_points = zone_points unit_square\<rparr>]
   \<and> fst (handleNameSubmit (current_closure mounted) 1700000000000 triangle ''Hall''
        scenario_first_zone_named) = None
   \<and> zones (snd (handleNameSubmit (current_closure mounted) 1700000000000 triangle ''Hall''
        scenario_first_zone_named)) =
      [\<lparr>zone_id = ''zone_1700000000000'', zone_name = ''Kitchen'', zone_points = zone_points unit_square\<rparr>]"
proof -
  have known: "c_zones (current_closure mounted) = []"
    by (simp add: current_closure_def mounted_def initial_screen_def)
  show ?thesis
    using same_millisecond_second_zone_discarded
      [of 1700000000000 "zone_points unit_square" "''Kitchen''" triangle "''Hall''"
          "current_closure mounted" mounted "current_closure mounted"]
    by (simp add: first_zone_named name_examples known)
qed

end
